theory Spec2Isabelle
  imports Complex_Main "HOL-Library.Word"
begin

unbundle bit_operations_syntax

section \<open>Values of the platform\<close>

type_synonym byte = "8 word"

text \<open>
  A JavaScript \<open>Error\<close> object, by the constructor that made it and its \<open>message\<close>.
\<close>

datatype error = Error string | RangeError string

fun message :: "error \<Rightarrow> string" where
  "message (Error m) = m"
| "message (RangeError m) = m"

text \<open>
  A promise is pending, fulfilled with a value or rejected with an error. The result of an
  \<open>async\<close> function is given as the state its promise ends in; \<open>Pending\<close> is a promise
  that never settles.
\<close>

datatype 'a promise = Pending | Fulfilled 'a | Rejected error

text \<open>Sequencing of steps that may throw: the first error ends the computation.\<close>

fun and_then :: "error + 'a \<Rightarrow> ('a \<Rightarrow> error + 'b) \<Rightarrow> error + 'b" where
  "and_then (Inl e) f = Inl e"
| "and_then (Inr x) f = f x"

subsection \<open>Numbers\<close>

text \<open>
  A JavaScript number: a finite double, given by its exact rational value, an infinity or
  NaN. Negative zero is not told apart from zero (nothing below depends on the sign of a
  zero), and the overflow of a finite result to an infinity is not modelled.
\<close>

datatype number = Num rat | PosInf | NegInf | NaN

text \<open>Truthiness of a number, as \<open>||\<close> and \<open>!\<close> test it: \<open>0\<close> and NaN are falsy.\<close>

fun num_truthy :: "number \<Rightarrow> bool" where
  "num_truthy (Num r) = (r \<noteq> 0)"
| "num_truthy NaN = False"
| "num_truthy _ = True"

text \<open>\<open>a || b\<close> where \<open>a\<close> is a number or \<open>undefined\<close> (\<open>None\<close>).\<close>

fun or_else :: "number option \<Rightarrow> 'a \<Rightarrow> (number \<Rightarrow> 'a) \<Rightarrow> 'a" where
  "or_else None b f = b"
| "or_else (Some n) b f = (if num_truthy n then f n else b)"

text \<open>Rounding towards zero, the first step of the integer conversions.\<close>

definition trunc :: "rat \<Rightarrow> int" where
  "trunc r = (if 0 \<le> r then \<lfloor>r\<rfloor> else \<lceil>r\<rceil>)"

text \<open>
  The conversions \<open>ToUint8\<close>, \<open>ToUint16\<close>, \<open>ToInt16\<close> and \<open>ToUint32\<close> that the
  setters of a \<open>DataView\<close> apply: NaN and the infinities give 0, a finite number is
  truncated and taken modulo \<open>2 ^ w\<close>. The signed and the unsigned conversion store the
  same bits.
\<close>

fun to_word :: "number \<Rightarrow> 'a::len word" where
  "to_word (Num r) = word_of_int (trunc r)"
| "to_word _ = 0"

text \<open>\<open>Math.min\<close> and \<open>Math.max\<close> of two numbers: NaN if either is NaN.\<close>

fun Math_min :: "number \<Rightarrow> number \<Rightarrow> number" where
  "Math_min NaN y = NaN"
| "Math_min x NaN = NaN"
| "Math_min NegInf y = NegInf"
| "Math_min x NegInf = NegInf"
| "Math_min PosInf y = y"
| "Math_min x PosInf = x"
| "Math_min (Num a) (Num b) = Num (min a b)"

fun Math_max :: "number \<Rightarrow> number \<Rightarrow> number" where
  "Math_max NaN y = NaN"
| "Math_max x NaN = NaN"
| "Math_max PosInf y = PosInf"
| "Math_max x PosInf = PosInf"
| "Math_max NegInf y = y"
| "Math_max x NegInf = x"
| "Math_max (Num a) (Num b) = Num (max a b)"

text \<open>
  Product and quotient of two numbers. The result of a finite operation is the exact
  result rounded to a double; the rounding \<open>rnd\<close> is a parameter, and is the identity
  where the exact result is a double.
\<close>

fun signed_inf :: "bool \<Rightarrow> number" where
  "signed_inf positive = (if positive then PosInf else NegInf)"

fun num_times :: "(rat \<Rightarrow> rat) \<Rightarrow> number \<Rightarrow> number \<Rightarrow> number" where
  "num_times rnd NaN y = NaN"
| "num_times rnd x NaN = NaN"
| "num_times rnd (Num a) (Num b) = Num (rnd (a * b))"
| "num_times rnd (Num a) PosInf = (if a = 0 then NaN else signed_inf (0 < a))"
| "num_times rnd (Num a) NegInf = (if a = 0 then NaN else signed_inf (a < 0))"
| "num_times rnd PosInf (Num b) = (if b = 0 then NaN else signed_inf (0 < b))"
| "num_times rnd NegInf (Num b) = (if b = 0 then NaN else signed_inf (b < 0))"
| "num_times rnd PosInf PosInf = PosInf"
| "num_times rnd NegInf NegInf = PosInf"
| "num_times rnd PosInf NegInf = NegInf"
| "num_times rnd NegInf PosInf = NegInf"

fun num_divide :: "(rat \<Rightarrow> rat) \<Rightarrow> number \<Rightarrow> number \<Rightarrow> number" where
  "num_divide rnd NaN y = NaN"
| "num_divide rnd x NaN = NaN"
| "num_divide rnd (Num a) (Num b) =
     (if b = 0 then (if a = 0 then NaN else signed_inf (0 < a)) else Num (rnd (a / b)))"
| "num_divide rnd (Num a) y = Num 0"
| "num_divide rnd PosInf (Num b) = signed_inf (0 \<le> b)"
| "num_divide rnd NegInf (Num b) = signed_inf (b < 0)"
| "num_divide rnd x y = NaN"

fun Math_floor :: "number \<Rightarrow> number" where
  "Math_floor (Num r) = Num (of_int \<lfloor>r\<rfloor>)"
| "Math_floor x = x"

text \<open>\<open>n >= x\<close> for a count \<open>n\<close>: false when \<open>x\<close> is NaN.\<close>

fun count_geq :: "nat \<Rightarrow> number \<Rightarrow> bool" where
  "count_geq n (Num r) = (r \<le> of_nat n)"
| "count_geq n NegInf = True"
| "count_geq n x = False"

subsection \<open>Buffers and typed arrays\<close>

text \<open>
  An \<open>ArrayBuffer\<close> is its bytes. A \<open>Float32Array\<close> is a window on a buffer: the
  bytes of the buffer before the window, the elements of the window as 32-bit patterns,
  and the bytes after it. Elements are stored in little-endian order, the byte order of
  the platforms the code runs on.
\<close>

datatype f32array = View (bytes_before: "byte list") (elems: "32 word list") (bytes_after: "byte list")

definition bytes_of_word32 :: "32 word \<Rightarrow> byte list" where
  "bytes_of_word32 w = [ucast w, ucast (drop_bit 8 w), ucast (drop_bit 16 w), ucast (drop_bit 24 w)]"

definition word32_of_bytes :: "byte \<Rightarrow> byte \<Rightarrow> byte \<Rightarrow> byte \<Rightarrow> 32 word" where
  "word32_of_bytes b0 b1 b2 b3 =
     ucast b0 OR push_bit 8 (ucast b1) OR push_bit 16 (ucast b2) OR push_bit 24 (ucast b3)"

fun words_of_bytes :: "byte list \<Rightarrow> 32 word list" where
  "words_of_bytes (b0 # b1 # b2 # b3 # bs) = word32_of_bytes b0 b1 b2 b3 # words_of_bytes bs"
| "words_of_bytes _ = []"

text \<open>The property \<open>length\<close> and the property \<open>buffer\<close> of a typed array.\<close>

definition array_length :: "f32array \<Rightarrow> nat" where
  "array_length a = length (elems a)"

definition buffer_of :: "f32array \<Rightarrow> byte list" where
  "buffer_of a = bytes_before a @ concat (map bytes_of_word32 (elems a)) @ bytes_after a"

text \<open>
  The value of a single-precision bit pattern (IEEE 754 binary32): sign, 8 bits of
  exponent, 23 bits of fraction.
\<close>

definition f32_value :: "32 word \<Rightarrow> number" where
  "f32_value w =
     (let e = unat (take_bit 8 (drop_bit 23 w));
          m = unat (take_bit 23 w);
          s = (if bit w 31 then - 1 else 1 :: rat)
      in if e = 255 then (if m = 0 then (if bit w 31 then NegInf else PosInf) else NaN)
         else if e = 0 then Num (s * of_nat m / 2 ^ 149)
         else if 150 \<le> e then Num (s * of_nat (2 ^ 23 + m) * 2 ^ (e - 150))
         else Num (s * of_nat (2 ^ 23 + m) / 2 ^ (150 - e)))"

text \<open>
  \<open>a[i]\<close> where a number is expected: the element, or \<open>undefined\<close> beyond the end of
  the array, which converts to NaN.
\<close>

definition element_at :: "f32array \<Rightarrow> nat \<Rightarrow> number" where
  "element_at a i = (if i < array_length a then f32_value (elems a ! i) else NaN)"

text \<open>
  \<open>new Float32Array(buffer)\<close> is a window on the whole buffer and throws when the bytes
  are not a whole number of elements; \<open>new Float32Array(typedArray)\<close> copies the elements
  into a buffer of its own.
\<close>

definition Float32Array_of_buffer :: "byte list \<Rightarrow> error + f32array" where
  "Float32Array_of_buffer bs =
     (if length bs mod 4 \<noteq> 0
      then Inl (RangeError ''byte length of Float32Array should be a multiple of 4'')
      else Inr (View [] (words_of_bytes bs) []))"

definition Float32Array_copy :: "f32array \<Rightarrow> f32array" where
  "Float32Array_copy a = View [] (elems a) []"

section \<open>The processor facade: \<open>denoise.ready\<close> (src/src/denoise.ts, lines 84-106)\<close>

text \<open>
  The properties \<open>_processor\<close>, \<open>_ready\<close> and \<open>_readyPromise\<close> of the \<open>denoise\<close>
  object. \<open>_readyPromise\<close> holds a handle into \<open>promises\<close>, the promises created so far
  (a handle is the index of the promise). \<open>loads\<close> counts the invocations of
  \<open>loadWasm\<close> and \<open>processed\<close> those of \<open>processor.process\<close>; the code has no such
  counters, they record what it calls.

  The module \<open>./wasm/loader\<close> is not part of the sources: a loaded module is a value of
  type \<open>'w\<close>, a processor one of type \<open>'p\<close>, and the constructor \<open>DenoiseProcessor\<close> is
  a parameter that returns the processor or the error it throws.
\<close>

record 'p denoise_state =
  processor :: "'p option"
  ready_flag :: bool
  readyPromise :: "nat option"
  promises :: "unit promise list"
  loads :: nat
  processed :: nat

definition denoise_init :: "'p denoise_state" where
  "denoise_init = \<lparr> processor = None, ready_flag = False, readyPromise = None,
     promises = [], loads = 0, processed = 0 \<rparr>"

text \<open>How the promise of \<open>loadWasm()\<close> settles.\<close>

datatype 'w load_outcome = LoadResolved 'w | LoadRejected error

text \<open>
  \<open>_initialize\<close> up to its \<open>await\<close>: \<open>loadWasm()\<close> is called and the promise of the
  \<open>async\<close> function is returned, pending.
\<close>

definition initialize :: "'p denoise_state \<Rightarrow> nat \<times> 'p denoise_state" where
  "initialize st =
     (length (promises st),
      st\<lparr> promises := promises st @ [Pending], loads := Suc (loads st) \<rparr>)"

text \<open>
  \<open>_initialize\<close> after its \<open>await\<close>, run when the load started for promise \<open>p\<close> settles:
  the processor is built and \<open>_ready\<close> set, or the promise of \<open>_initialize\<close> is rejected
  with what \<open>loadWasm\<close> or the constructor threw. Only \<open>initialize\<close> creates pending
  promises, so a pending \<open>p\<close> is one whose load is in flight.
\<close>

definition load_settles ::
  "('w \<Rightarrow> error + 'p) \<Rightarrow> nat \<Rightarrow> 'w load_outcome \<Rightarrow> 'p denoise_state \<Rightarrow> 'p denoise_state" where
  "load_settles new_DenoiseProcessor p outcome st =
     (if p < length (promises st) \<and> promises st ! p = Pending then
        (case outcome of
           LoadRejected e \<Rightarrow> st\<lparr> promises := (promises st)[p := Rejected e] \<rparr>
         | LoadResolved wasmModule \<Rightarrow>
             (case new_DenoiseProcessor wasmModule of
                Inl e \<Rightarrow> st\<lparr> promises := (promises st)[p := Rejected e] \<rparr>
              | Inr proc \<Rightarrow>
                  st\<lparr> processor := Some proc, ready_flag := True,
                      promises := (promises st)[p := Fulfilled ()] \<rparr>))
      else st)"

text \<open>\<open>ready()\<close>: the promise it returns, and the state after the call.\<close>

definition ready :: "'p denoise_state \<Rightarrow> nat \<times> 'p denoise_state" where
  "ready st =
     (if ready_flag st then
        (length (promises st), st\<lparr> promises := promises st @ [Fulfilled ()] \<rparr>)
      else
        (case readyPromise st of
           None \<Rightarrow> (let (p, st') = initialize st in (p, st'\<lparr> readyPromise := Some p \<rparr>))
         | Some p \<Rightarrow> (p, st)))"

text \<open>
  The facade over time: calls of \<open>ready()\<close>, by any caller and in any order, interleaved
  with loads settling. \<open>run\<close> plays a sequence of events.
\<close>

datatype 'w event = CallReady | LoadSettles nat "'w load_outcome"

fun step :: "('w \<Rightarrow> error + 'p) \<Rightarrow> 'w event \<Rightarrow> 'p denoise_state \<Rightarrow> 'p denoise_state" where
  "step mk CallReady st = snd (ready st)"
| "step mk (LoadSettles p outcome) st = load_settles mk p outcome st"

fun run :: "('w \<Rightarrow> error + 'p) \<Rightarrow> 'w event list \<Rightarrow> 'p denoise_state \<Rightarrow> 'p denoise_state" where
  "run mk [] st = st"
| "run mk (ev # evs) st = run mk evs (step mk ev st)"


section \<open>The container file: \<open>createWavFile\<close> (src/src/denoise.ts, lines 110-144)\<close>

text \<open>
  The setters of a \<open>DataView\<close> on the whole buffer, always called with the little-endian
  flag. A write that does not fit in the buffer throws.
\<close>

definition store :: "byte list \<Rightarrow> nat \<Rightarrow> byte list \<Rightarrow> error + byte list" where
  "store buf off bs =
     (if off + length bs \<le> length buf
      then Inr (take off buf @ bs @ drop (off + length bs) buf)
      else Inl (RangeError ''Offset is outside the bounds of the DataView''))"

definition bytes_of_word16 :: "16 word \<Rightarrow> byte list" where
  "bytes_of_word16 w = [ucast w, ucast (drop_bit 8 w)]"

definition setUint8 :: "byte list \<Rightarrow> nat \<Rightarrow> number \<Rightarrow> error + byte list" where
  "setUint8 buf off v = store buf off [to_word v]"

definition setUint16 :: "byte list \<Rightarrow> nat \<Rightarrow> number \<Rightarrow> error + byte list" where
  "setUint16 buf off v = store buf off (bytes_of_word16 (to_word v))"

definition setInt16 :: "byte list \<Rightarrow> nat \<Rightarrow> number \<Rightarrow> error + byte list" where
  "setInt16 buf off v = store buf off (bytes_of_word16 (to_word v))"

definition setUint32 :: "byte list \<Rightarrow> nat \<Rightarrow> number \<Rightarrow> error + byte list" where
  "setUint32 buf off v = store buf off (bytes_of_word32 (to_word v))"

text \<open>The getters, for reading a produced file back.\<close>

definition getInt16 :: "byte list \<Rightarrow> nat \<Rightarrow> int" where
  "getInt16 buf off = sint (ucast (buf ! off) OR push_bit 8 (ucast (buf ! (off + 1))) :: 16 word)"

definition getUint32 :: "byte list \<Rightarrow> nat \<Rightarrow> nat" where
  "getUint32 buf off =
     unat (word32_of_bytes (buf ! off) (buf ! (off + 1)) (buf ! (off + 2)) (buf ! (off + 3)))"

text \<open>\<open>writeString\<close>: one \<open>setUint8\<close> per character, with its character code.\<close>

fun writeString :: "byte list \<Rightarrow> nat \<Rightarrow> string \<Rightarrow> error + byte list" where
  "writeString buf offset [] = Inr buf"
| "writeString buf offset (c # cs) =
     and_then (setUint8 buf offset (Num (of_nat (of_char c))))
       (\<lambda>buf'. writeString buf' (offset + 1) cs)"

text \<open>
  The loop that converts the samples, from index \<open>i\<close> on. The product
  \<open>sample * 0x7FFF\<close> of a single-precision value in \<open>[-1, 1]\<close> and a 15-bit constant is
  exact in double precision.
\<close>

function write_samples :: "f32array \<Rightarrow> nat \<Rightarrow> byte list \<Rightarrow> error + byte list" where
  "write_samples audioData i buf =
     (if i < array_length audioData then
        (let sample = Math_max (Num (- 1)) (Math_min (Num 1) (element_at audioData i))
         in case setInt16 buf (44 + i * 2) (num_times (\<lambda>x. x) sample (Num 32767)) of
              Inl e \<Rightarrow> Inl e
            | Inr buf' \<Rightarrow> write_samples audioData (Suc i) buf')
      else Inr buf)"
  by pat_completeness auto
termination
  by (relation "measure (\<lambda>(audioData, i, buf). array_length audioData - i)") auto

definition createWavFile :: "f32array \<Rightarrow> number \<Rightarrow> error + byte list" where
  "createWavFile audioData sampleRate =
     (let len = array_length audioData;
          buffer = replicate (44 + len * 2) (0 :: byte)
      in and_then (writeString buffer 0 ''RIFF'') (\<lambda>b.
         and_then (setUint32 b 4 (Num (of_nat (36 + len * 2)))) (\<lambda>b.
         and_then (writeString b 8 ''WAVE'') (\<lambda>b.
         and_then (writeString b 12 ''fmt '') (\<lambda>b.
         and_then (setUint32 b 16 (Num 16)) (\<lambda>b.
         and_then (setUint16 b 20 (Num 1)) (\<lambda>b.
         and_then (setUint16 b 22 (Num 1)) (\<lambda>b.
         and_then (setUint32 b 24 sampleRate) (\<lambda>b.
         and_then (setUint32 b 28 (num_times (\<lambda>x. x) sampleRate (Num 2))) (\<lambda>b.
         and_then (setUint16 b 32 (Num 2)) (\<lambda>b.
         and_then (setUint16 b 34 (Num 16)) (\<lambda>b.
         and_then (writeString b 36 ''data'') (\<lambda>b.
         and_then (setUint32 b 40 (Num (of_nat (len * 2)))) (\<lambda>b.
         write_samples audioData 0 b))))))))))))))"

text \<open>
  The sample format in the words of the specification: the sample clipped to \<open>[-1, 1]\<close>,
  scaled to the signed 16-bit range and cut to an integer. A sample that is NaN is
  written as 0.
\<close>

fun clip :: "number \<Rightarrow> number" where
  "clip (Num r) = Num (if r < - 1 then - 1 else if 1 < r then 1 else r)"
| "clip PosInf = Num 1"
| "clip NegInf = Num (- 1)"
| "clip NaN = NaN"

fun pcm16 :: "number \<Rightarrow> int" where
  "pcm16 x = (case clip x of Num c \<Rightarrow> trunc (c * 32767) | _ \<Rightarrow> 0)"

section \<open>Capture of a live stream: \<open>captureStreamAudio\<close> (src/src/denoise.ts, lines 147-186)\<close>

text \<open>\<open>Math.floor((duration / 1000) * sampleRate)\<close>.\<close>

definition targetSamples :: "(rat \<Rightarrow> rat) \<Rightarrow> number \<Rightarrow> number \<Rightarrow> number" where
  "targetSamples rnd duration sampleRate =
     Math_floor (num_times rnd (num_divide rnd duration (Num 1000)) sampleRate)"

text \<open>
  \<open>result.set(chunk, offset)\<close> copies the elements of \<open>chunk\<close> into \<open>result\<close> and throws
  when they do not fit.
\<close>

definition typed_set :: "f32array \<Rightarrow> f32array \<Rightarrow> nat \<Rightarrow> error + f32array" where
  "typed_set result chunk offset =
     (if offset + array_length chunk \<le> array_length result
      then Inr (View (bytes_before result)
                  (take offset (elems result) @ elems chunk
                     @ drop (offset + array_length chunk) (elems result))
                  (bytes_after result))
      else Inl (RangeError ''offset is out of bounds''))"

text \<open>The loop that combines the chunks.\<close>

fun combine :: "f32array \<Rightarrow> nat \<Rightarrow> f32array list \<Rightarrow> error + f32array" where
  "combine result offset [] = Inr result"
| "combine result offset (chunk # chunks) =
     and_then (typed_set result chunk offset)
       (\<lambda>result'. combine result' (offset + array_length chunk) chunks)"

text \<open>
  \<open>result.slice(0, end)\<close>: the end is converted to an integer (NaN to 0), counts from
  the end of the array when negative, and is kept within the array.
\<close>

fun slice_end :: "nat \<Rightarrow> number \<Rightarrow> nat" where
  "slice_end len (Num r) =
     (let k = trunc r in if k < 0 then nat (max (int len + k) 0) else nat (min k (int len)))"
| "slice_end len PosInf = len"
| "slice_end len x = 0"

definition slice0 :: "f32array \<Rightarrow> number \<Rightarrow> f32array" where
  "slice0 a end = View [] (take (slice_end (array_length a) end) (elems a)) []"

text \<open>
  The handler \<open>onaudioprocess\<close>, called once for each frame the platform delivers, with
  the chunks and the count of samples kept so far. The promise is resolved by the first
  frame that reaches the target and stays pending when the frames end before that. An
  exception in the handler leaves the promise pending and the handler installed.
\<close>

fun onaudioprocess ::
  "number \<Rightarrow> f32array list \<Rightarrow> nat \<Rightarrow> f32array list \<Rightarrow> f32array promise" where
  "onaudioprocess target chunks totalSamples [] = Pending"
| "onaudioprocess target chunks totalSamples (inputData # frames) =
     (let chunks' = chunks @ [Float32Array_copy inputData];
          totalSamples' = totalSamples + array_length inputData
      in if count_geq totalSamples' target then
           (case combine (View [] (replicate totalSamples' 0) []) 0 chunks' of
              Inl e \<Rightarrow> onaudioprocess target chunks' totalSamples' frames
            | Inr result \<Rightarrow> Fulfilled (slice0 result target))
         else onaudioprocess target chunks' totalSamples' frames)"

text \<open>
  \<open>captureStreamAudio\<close>, given what the platform supplies: the sample rate of the new
  \<open>AudioContext\<close> and the frames its script processor delivers.
\<close>

definition captureStreamAudio ::
  "(rat \<Rightarrow> rat) \<Rightarrow> number \<Rightarrow> f32array list \<Rightarrow> number \<Rightarrow> f32array promise" where
  "captureStreamAudio rnd context_rate frames duration =
     onaudioprocess (targetSamples rnd duration context_rate) [] 0 frames"

section \<open>The operation \<open>denoise\<close> (src/src/denoise.ts, lines 12-83)\<close>

text \<open>
  The values that reach \<open>denoise\<close> as its input, whatever its declared type: \<open>null\<close>,
  \<open>undefined\<close>, a string, a number, a boolean, any other object that is none of the
  supported shapes, and the four supported shapes. A \<open>Blob\<close> is its bytes and its type, a
  \<open>File\<close> has a name as well, and a \<open>MediaStream\<close> is the list of its tracks.
\<close>

type_synonym track = nat

datatype js_value =
    Null
  | Undefined
  | Str string
  | Number number
  | Boolean bool
  | Object
  | ArrayBuffer "byte list"
  | Float32Array f32array
  | Blob "byte list" string
  | File "byte list" string string
  | MediaStream "track list"

text \<open>
  \<open>!input\<close> is true for \<open>null\<close>, \<open>undefined\<close>, the empty string, the numbers 0 and NaN,
  and \<open>false\<close>.
\<close>

fun truthy :: "js_value \<Rightarrow> bool" where
  "truthy Null = False"
| "truthy Undefined = False"
| "truthy (Str s) = (s \<noteq> [])"
| "truthy (Number n) = num_truthy n"
| "truthy (Boolean b) = b"
| "truthy v = True"

datatype return_type = arraybuffer | blob | float32array

record options =
  sampleRate :: "number option"
  returnType :: "return_type option"
  model :: "byte list option"
  duration :: "number option"

text \<open>An \<open>AudioBuffer\<close>: its sample rate and the data of its channel 0.\<close>

record audio_buffer =
  buffer_sampleRate :: number
  channelData0 :: f32array

text \<open>
  What \<open>processor.process\<close> resolves to: the expression \<open>new Float32Array(denoised)\<close> and
  the declared result of \<open>denoise\<close> admit a buffer or a typed array.
\<close>

datatype denoised = Buffer "byte list" | Samples f32array

fun value_of :: "denoised \<Rightarrow> js_value" where
  "value_of (Buffer bs) = ArrayBuffer bs"
| "value_of (Samples a) = Float32Array a"

fun new_Float32Array :: "denoised \<Rightarrow> error + f32array" where
  "new_Float32Array (Buffer bs) = Float32Array_of_buffer bs"
| "new_Float32Array (Samples a) = Inr (Float32Array_copy a)"

text \<open>
  What the platform and the engine answer during one call of \<open>denoise\<close>: how the load in
  flight settles, the constructor of the processor, the decoder and the closing of its
  context (\<open>None\<close> when \<open>close()\<close> resolves), the sample rate and the frames of a capture,
  the engine, and the rounding of doubles. Reading the bytes of a \<open>Blob\<close> and
  constructing an \<open>AudioContext\<close> are taken to succeed.
\<close>

record ('w, 'p) env =
  loadWasm :: "'w load_outcome"
  new_DenoiseProcessor :: "'w \<Rightarrow> error + 'p"
  decodeAudioData :: "byte list \<Rightarrow> error + audio_buffer"
  close_context :: "error option"
  context_sampleRate :: number
  audio_frames :: "f32array list"
  process :: "'p \<Rightarrow> f32array \<Rightarrow> options \<Rightarrow> error + denoised"
  round_double :: "rat \<Rightarrow> rat"

text \<open>The branch for a \<open>Blob\<close> or a \<open>File\<close> (lines 33-49), from the bytes read.\<close>

definition decode_file :: "('w, 'p) env \<Rightarrow> byte list \<Rightarrow> (f32array \<times> number option) promise" where
  "decode_file env buffer =
     (case decodeAudioData env buffer of
        Inl error \<Rightarrow> Rejected (Error (''Failed to decode audio file: '' @ message error))
      | Inr audioBuffer \<Rightarrow>
          (case close_context env of
             Some error \<Rightarrow> Rejected (Error (''Failed to decode audio file: '' @ message error))
           | None \<Rightarrow> Fulfilled (channelData0 audioBuffer, Some (buffer_sampleRate audioBuffer))))"

text \<open>
  The conversion of the input to a \<open>Float32Array\<close> (lines 24-54): the samples and the
  value of the variable \<open>sampleRate\<close> after it.
\<close>

fun normalize_input ::
  "('w, 'p) env \<Rightarrow> js_value \<Rightarrow> options \<Rightarrow> (f32array \<times> number option) promise" where
  "normalize_input env (ArrayBuffer bs) opts =
     (case Float32Array_of_buffer bs of
        Inl e \<Rightarrow> Rejected e
      | Inr audioData \<Rightarrow> Fulfilled (audioData, sampleRate opts))"
| "normalize_input env (Float32Array a) opts = Fulfilled (a, sampleRate opts)"
| "normalize_input env (Blob bs ty) opts = decode_file env bs"
| "normalize_input env (File bs name ty) opts = decode_file env bs"
| "normalize_input env (MediaStream tracks) opts =
     (case captureStreamAudio (round_double env) (context_sampleRate env) (audio_frames env)
             (or_else (duration opts) (Num 5000) (\<lambda>d. d)) of
        Pending \<Rightarrow> Pending
      | Rejected e \<Rightarrow> Rejected e
      | Fulfilled audioData \<Rightarrow> Fulfilled (audioData, sampleRate opts))"
| "normalize_input env v opts = Rejected (Error ''Invalid input type'')"

text \<open>
  \<open>await denoise.ready()\<close>: the call of \<open>ready()\<close>, after which a load in flight settles
  as the environment says. The result is how the awaited promise ends.
\<close>

definition await_ready :: "('w, 'p) env \<Rightarrow> 'p denoise_state \<Rightarrow> unit promise \<times> 'p denoise_state" where
  "await_ready env st =
     (let (p, st1) = ready st;
          st2 = load_settles (new_DenoiseProcessor env) p (loadWasm env) st1
      in (if p < length (promises st2) then promises st2 ! p else Pending, st2))"

text \<open>The result in the requested format (lines 72-82).\<close>

definition format_result :: "options \<Rightarrow> number option \<Rightarrow> denoised \<Rightarrow> js_value promise" where
  "format_result opts sampleRate_var denoised =
     (case returnType opts of
        Some blob \<Rightarrow>
          (case new_Float32Array denoised of
             Inl e \<Rightarrow> Rejected e
           | Inr samples \<Rightarrow>
               (case createWavFile samples (or_else sampleRate_var (Num 48000) (\<lambda>r. r)) of
                  Inl e \<Rightarrow> Rejected e
                | Inr wavBuffer \<Rightarrow> Fulfilled (Blob wavBuffer ''audio/wav'')))
      | Some float32array \<Rightarrow>
          (case new_Float32Array denoised of
             Inl e \<Rightarrow> Rejected e
           | Inr samples \<Rightarrow> Fulfilled (Float32Array samples))
      | _ \<Rightarrow> Fulfilled (value_of denoised))"

definition denoise ::
  "('w, 'p) env \<Rightarrow> 'p denoise_state \<Rightarrow> js_value \<Rightarrow> options \<Rightarrow> js_value promise \<times> 'p denoise_state" where
  "denoise env st input opts =
     (if \<not> truthy input then
        (Rejected (Error ''Invalid input: input cannot be null or undefined''), st)
      else
        (case await_ready env st of
           (Pending, st') \<Rightarrow> (Pending, st')
         | (Rejected e, st') \<Rightarrow> (Rejected e, st')
         | (Fulfilled u, st') \<Rightarrow>
             (case normalize_input env input opts of
                Pending \<Rightarrow> (Pending, st')
              | Rejected e \<Rightarrow> (Rejected e, st')
              | Fulfilled (audioData, sampleRate_var) \<Rightarrow>
                  if array_length audioData = 0 then (Rejected (Error ''Audio data is empty''), st')
                  else
                    (case processor st' of
                       None \<Rightarrow> (Rejected (Error ''Denoise processor not initialized''), st')
                     | Some proc \<Rightarrow>
                         (case process env proc audioData
                                 (opts\<lparr> sampleRate :=
                                    or_else sampleRate_var (sampleRate opts) (\<lambda>r. Some r) \<rparr>) of
                            Inl e \<Rightarrow> (Rejected e, st'\<lparr> processed := Suc (processed st') \<rparr>)
                          | Inr denoised \<Rightarrow>
                              (format_result opts sampleRate_var denoised,
                               st'\<lparr> processed := Suc (processed st') \<rparr>))))))"

section \<open>The hook (src/src/hooks/useAudioDenoiser.ts)\<close>

text \<open>
  The state of one instance of the hook: its three state variables, its two references,
  and the model of its options. \<open>stopped\<close> lists the calls of \<open>track.stop()\<close> made so
  far, in order; the code has no such list, it records what the hook calls.
\<close>

record hook_state =
  isReady :: bool
  isProcessing :: bool
  error_state :: "error option"
  microphoneStreamRef :: "track list option"
  audioContextRef :: bool
  hook_model :: "byte list option"
  stopped :: "track list"

text \<open>\<open>{...denoiseOptions, model: options.model}\<close>, where the options may be absent.\<close>

definition spread_options :: "options option \<Rightarrow> byte list option \<Rightarrow> options" where
  "spread_options denoiseOptions m =
     (case denoiseOptions of
        None \<Rightarrow> \<lparr> sampleRate = None, returnType = None, model = m, duration = None \<rparr>
      | Some opts \<Rightarrow> opts\<lparr> model := m \<rparr>)"

text \<open>The conversion of the result to an \<open>ArrayBuffer\<close> (lines 83-92).\<close>

fun ensure_ArrayBuffer :: "js_value \<Rightarrow> error + js_value" where
  "ensure_ArrayBuffer (ArrayBuffer bs) = Inr (ArrayBuffer bs)"
| "ensure_ArrayBuffer (Blob bs ty) = Inr (ArrayBuffer bs)"
| "ensure_ArrayBuffer (File bs name ty) = Inr (ArrayBuffer bs)"
| "ensure_ArrayBuffer (Float32Array a) = Inr (ArrayBuffer (buffer_of a))"
| "ensure_ArrayBuffer v = Inl (Error ''Unexpected result type'')"

definition denoiseAudio ::
  "('w, 'p) env \<Rightarrow> hook_state \<times> 'p denoise_state \<Rightarrow> js_value \<Rightarrow> options option
     \<Rightarrow> js_value promise \<times> hook_state \<times> 'p denoise_state" where
  "denoiseAudio env hs input denoiseOptions =
     (let h1 = (fst hs)\<lparr> isProcessing := True, error_state := None \<rparr>;
          (r, st') = denoise env (snd hs) input (spread_options denoiseOptions (hook_model (fst hs)))
      in case r of
           Pending \<Rightarrow> (Pending, h1, st')
         | Rejected e \<Rightarrow> (Rejected e, h1\<lparr> error_state := Some e, isProcessing := False \<rparr>, st')
         | Fulfilled result \<Rightarrow>
             (case ensure_ArrayBuffer result of
                Inl e \<Rightarrow> (Rejected e, h1\<lparr> error_state := Some e, isProcessing := False \<rparr>, st')
              | Inr b \<Rightarrow> (Fulfilled b, h1\<lparr> isProcessing := False \<rparr>, st')))"

text \<open>
  What the platform answers to \<open>startMicrophone\<close>: the stream of \<open>getUserMedia\<close> or its
  refusal, whether the constructor of the \<open>AudioContext\<close> throws, and the stream of the
  destination node or what building the graph throws.
\<close>

record mic_env =
  getUserMedia :: "error + track list"
  new_AudioContext :: "error option"
  destination_stream :: "error + track list"

definition startMicrophone :: "mic_env \<Rightarrow> hook_state \<Rightarrow> js_value promise \<times> hook_state" where
  "startMicrophone env h =
     (case getUserMedia env of
        Inl e \<Rightarrow> (Rejected e, h\<lparr> error_state := Some e \<rparr>)
      | Inr stream \<Rightarrow>
          (let h1 = h\<lparr> microphoneStreamRef := Some stream \<rparr> in
           case (if audioContextRef h1 then None else new_AudioContext env) of
             Some e \<Rightarrow> (Rejected e, h1\<lparr> error_state := Some e \<rparr>)
           | None \<Rightarrow>
               (let h2 = h1\<lparr> audioContextRef := True \<rparr> in
                case destination_stream env of
                  Inl e \<Rightarrow> (Rejected e, h2\<lparr> error_state := Some e \<rparr>)
                | Inr out \<Rightarrow> (Fulfilled (MediaStream out), h2))))"

text \<open>\<open>stopMicrophone\<close> (lines 139-144): \<open>forEach\<close> stops the tracks one after the other.\<close>

fun stop_each :: "track list \<Rightarrow> track list \<Rightarrow> track list" where
  "stop_each calls [] = calls"
| "stop_each calls (t # ts) = stop_each (calls @ [t]) ts"

definition stopMicrophone :: "hook_state \<Rightarrow> hook_state" where
  "stopMicrophone h =
     (case microphoneStreamRef h of
        None \<Rightarrow> h
      | Some stream \<Rightarrow> h\<lparr> stopped := stop_each (stopped h) stream, microphoneStreamRef := None \<rparr>)"

section \<open>Invariants, specifications and examples\<close>

text \<open>
  What holds of the facade in every state it reaches: a pending promise is the memoized
  one; without a memoized promise no load was started and \<open>_ready\<close> is false; with one,
  exactly one load was started, and \<open>_ready\<close> is true only once that promise is fulfilled.
\<close>

definition facade_inv :: "'p denoise_state \<Rightarrow> bool" where
  "facade_inv st \<longleftrightarrow>
     (\<forall>q < length (promises st). readyPromise st \<noteq> Some q \<longrightarrow> promises st ! q \<noteq> Pending)
     \<and> (case readyPromise st of
          None \<Rightarrow> loads st = 0 \<and> \<not> ready_flag st
        | Some p \<Rightarrow> loads st = 1 \<and> p < length (promises st)
            \<and> (ready_flag st \<longrightarrow> promises st ! p = Fulfilled ()))"

text \<open>The four supported shapes of an input.\<close>

definition supported_shape :: "js_value \<Rightarrow> bool" where
  "supported_shape v =
     (case v of ArrayBuffer bs \<Rightarrow> True | Float32Array a \<Rightarrow> True | Blob bs ty \<Rightarrow> True
      | File bs name ty \<Rightarrow> True | MediaStream tracks \<Rightarrow> True | _ \<Rightarrow> False)"

text \<open>Concrete options, environments and states, for the examples.\<close>

definition no_options :: options where
  "no_options = \<lparr> sampleRate = None, returnType = None, model = None, duration = None \<rparr>"

definition example_env :: "(unit, unit) env" where
  "example_env = \<lparr> loadWasm = LoadResolved (), new_DenoiseProcessor = (\<lambda>w. Inr ()),
     decodeAudioData = (\<lambda>bs. Inl (Error ''Unable to decode audio data'')),
     close_context = None, context_sampleRate = Num 48000, audio_frames = [],
     process = (\<lambda>p a opts. Inr (Samples a)), round_double = (\<lambda>x. x) \<rparr>"

definition failed_state :: "unit denoise_state" where
  "failed_state = run (\<lambda>w :: unit. Inr ()) [CallReady, LoadSettles 0 (LoadRejected (Error ''load failed''))]
     denoise_init"

text \<open>
  The facade after a failed initialization: \<open>_ready\<close> is false and the memoized promise
  \<open>p\<close> is rejected with \<open>e\<close>.
\<close>

definition failed_init :: "nat \<Rightarrow> error \<Rightarrow> 'p denoise_state \<Rightarrow> bool" where
  "failed_init p e st \<longleftrightarrow>
     \<not> ready_flag st \<and> readyPromise st = Some p \<and> p < length (promises st)
     \<and> promises st ! p = Rejected e"

text \<open>The hook as \<open>useState\<close> and \<open>useRef\<close> create it, with the model of its options.\<close>

definition hook_init :: "byte list option \<Rightarrow> hook_state" where
  "hook_init m = \<lparr> isReady = False, isProcessing = False, error_state = None,
     microphoneStreamRef = None, audioContextRef = False, hook_model = m, stopped = [] \<rparr>"

definition example_mic :: mic_env where
  "example_mic = \<lparr> getUserMedia = Inr [7, 8], new_AudioContext = None,
     destination_stream = Inr [9] \<rparr>"

text \<open>
  The bytes of the header and of one sample, as the file format lays them out: the
  closed form of what \<open>createWavFile\<close> writes.
\<close>

definition ascii :: "string \<Rightarrow> byte list" where
  "ascii s = map (\<lambda>c. of_nat (of_char c)) s"

definition wav_header :: "nat \<Rightarrow> number \<Rightarrow> byte list" where
  "wav_header len rate =
     ascii ''RIFF'' @ bytes_of_word32 (to_word (Num (of_nat (36 + len * 2))))
     @ ascii ''WAVE'' @ ascii ''fmt '' @ bytes_of_word32 (to_word (Num 16))
     @ bytes_of_word16 (to_word (Num 1)) @ bytes_of_word16 (to_word (Num 1))
     @ bytes_of_word32 (to_word rate)
     @ bytes_of_word32 (to_word (num_times (\<lambda>x. x) rate (Num 2)))
     @ bytes_of_word16 (to_word (Num 2)) @ bytes_of_word16 (to_word (Num 16))
     @ ascii ''data'' @ bytes_of_word32 (to_word (Num (of_nat (len * 2))))"

definition sample_bytes :: "32 word \<Rightarrow> byte list" where
  "sample_bytes w =
     bytes_of_word16
       (to_word (num_times (\<lambda>x. x) (Math_max (Num (- 1)) (Math_min (Num 1) (f32_value w)))
          (Num 32767)))"

text \<open>
  The effective sample rate of an input, in the words of the specification: the rate
  of the decoded file for a \<open>Blob\<close> or a \<open>File\<close>, otherwise the rate the caller
  supplied, if any.
\<close>

definition effective_rate :: "('w, 'p) env \<Rightarrow> js_value \<Rightarrow> options \<Rightarrow> number option" where
  "effective_rate env input opts =
     (case input of
        Blob bs ty \<Rightarrow>
          (case decodeAudioData env bs of Inl e \<Rightarrow> None | Inr ab \<Rightarrow> Some (buffer_sampleRate ab))
      | File bs name ty \<Rightarrow>
          (case decodeAudioData env bs of Inl e \<Rightarrow> None | Inr ab \<Rightarrow> Some (buffer_sampleRate ab))
      | _ \<Rightarrow> sampleRate opts)"

text \<open>
  An array of the one sample \<open>0.5\<close>, and the container file of that sample at 48000 Hz.
\<close>

definition example_audio :: f32array where
  "example_audio = View [] [0x3F000000] []"

definition example_wav :: "byte list" where
  "example_wav =
     [0x52, 0x49, 0x46, 0x46, 38, 0, 0, 0, 0x57, 0x41, 0x56, 0x45, 0x66, 0x6D, 0x74, 0x20,
      16, 0, 0, 0, 1, 0, 1, 0, 0x80, 0xBB, 0, 0, 0x00, 0x77, 0x01, 0, 2, 0, 16, 0,
      0x64, 0x61, 0x74, 0x61, 2, 0, 0, 0, 0xFF, 0x3F]"

text \<open>
  The duration that the capture of a stream uses (line 51): the option, or 5000 when the
  option is absent, 0 or NaN.
\<close>

definition capture_duration :: "options \<Rightarrow> number" where
  "capture_duration opts = or_else (duration opts) (Num 5000) (\<lambda>d. d)"

text \<open>All the samples of a list of frames, in order.\<close>

definition samples_of :: "f32array list \<Rightarrow> 32 word list" where
  "samples_of frames = concat (map elems frames)"

text \<open>One frame of the script processor: 4096 samples of silence.\<close>

definition silent_frame :: f32array where
  "silent_frame = View [] (replicate 4096 0) []"

section \<open>The facade initializes at most once\<close>

lemma facade_inv_init: "facade_inv denoise_init"
  by (simp add: facade_inv_def denoise_init_def)

lemma ready_cases:
  "ready st =
     (if ready_flag st then (length (promises st), st\<lparr> promises := promises st @ [Fulfilled ()] \<rparr>)
      else if readyPromise st = None then
        (length (promises st),
         st\<lparr> promises := promises st @ [Pending], loads := Suc (loads st),
             readyPromise := Some (length (promises st)) \<rparr>)
      else (the (readyPromise st), st))"
  by (simp add: ready_def initialize_def split: option.splits)

lemma facade_inv_ready: "facade_inv st \<Longrightarrow> facade_inv (snd (ready st))"
proof (cases "ready_flag st")
  case True
  assume inv: "facade_inv st"
  then obtain p where p: "readyPromise st = Some p"
    using True by (cases "readyPromise st") (simp_all add: facade_inv_def)
  show ?thesis
    using inv True p by (simp add: ready_cases facade_inv_def nth_append less_Suc_eq)
next
  case False
  assume inv: "facade_inv st"
  show ?thesis
  proof (cases "readyPromise st")
    case None
    then show ?thesis
      using inv False by (simp add: ready_cases facade_inv_def nth_append less_Suc_eq)
  next
    case (Some p)
    then show ?thesis
      using inv False by (simp add: ready_cases)
  qed
qed


lemma facade_inv_rejected:
  assumes "facade_inv st" "p < length (promises st)" "promises st ! p = Pending"
  shows "facade_inv (st\<lparr> promises := (promises st)[p := Rejected e] \<rparr>)"
proof -
  have rp: "readyPromise st = Some p"
    using assms unfolding facade_inv_def by blast
  show ?thesis
    using assms rp by (simp add: facade_inv_def nth_list_update)
qed

lemma facade_inv_fulfilled:
  assumes "facade_inv st" "p < length (promises st)" "promises st ! p = Pending"
  shows "facade_inv (st\<lparr> processor := Some proc, ready_flag := True,
                   promises := (promises st)[p := Fulfilled ()] \<rparr>)"
proof -
  have rp: "readyPromise st = Some p"
    using assms unfolding facade_inv_def by blast
  show ?thesis
    using assms rp by (simp add: facade_inv_def nth_list_update)
qed

lemma facade_inv_load_settles: "facade_inv st \<Longrightarrow> facade_inv (load_settles mk p outcome st)"
proof (cases "p < length (promises st) \<and> promises st ! p = Pending")
  case False
  assume "facade_inv st"
  then show ?thesis using False by (auto simp: load_settles_def)
next
  case True
  assume inv: "facade_inv st"
  show ?thesis
  proof (cases outcome)
    case (LoadRejected e)
    then show ?thesis
      using True facade_inv_rejected [OF inv, of p e] by (simp add: load_settles_def)
  next
    case (LoadResolved w)
    show ?thesis
    proof (cases "mk w")
      case (Inl e)
      then show ?thesis
        using True LoadResolved facade_inv_rejected [OF inv, of p e] by (simp add: load_settles_def)
    next
      case (Inr proc)
      then show ?thesis
        using True LoadResolved facade_inv_fulfilled [OF inv, of p proc]
        by (simp add: load_settles_def)
    qed
  qed
qed


lemma facade_inv_step: "facade_inv st \<Longrightarrow> facade_inv (step mk ev st)"
  by (cases ev) (simp_all add: facade_inv_ready facade_inv_load_settles)

lemma facade_inv_run: "facade_inv st \<Longrightarrow> facade_inv (run mk evs st)"
  by (induction evs arbitrary: st) (simp_all add: facade_inv_step)

lemma load_settles_fields:
  "readyPromise (load_settles mk p outcome st) = readyPromise st
   \<and> loads (load_settles mk p outcome st) = loads st
   \<and> (ready_flag st \<longrightarrow> ready_flag (load_settles mk p outcome st))"
  by (simp add: load_settles_def split: load_outcome.splits sum.splits)

lemma ready_flag_step: "ready_flag st \<Longrightarrow> ready_flag (step mk ev st)"
  by (cases ev) (simp_all add: ready_cases load_settles_fields)

lemma ready_flag_run: "ready_flag st \<Longrightarrow> ready_flag (run mk evs st)"
  by (induction evs arbitrary: st) (simp_all add: ready_flag_step)

lemma memo_step:
  "readyPromise st = Some p \<Longrightarrow>
     readyPromise (step mk ev st) = Some p \<and> loads (step mk ev st) = loads st"
  by (cases ev) (simp_all add: ready_cases load_settles_fields)

lemma memo_run:
  "readyPromise st = Some p \<Longrightarrow>
     readyPromise (run mk evs st) = Some p \<and> loads (run mk evs st) = loads st"
proof (induction evs arbitrary: st)
  case Nil
  then show ?case by simp
next
  case (Cons ev evs)
  from memo_step [OF Cons.prems, of mk ev] Cons.IH [of "step mk ev st"]
  show ?case by simp
qed

lemma ready_returns_memo:
  "\<not> ready_flag st \<Longrightarrow> readyPromise (snd (ready st)) = Some (fst (ready st))"
  by (cases "readyPromise st") (simp_all add: ready_cases)

lemma ready_when_memo:
  "\<not> ready_flag st \<Longrightarrow> readyPromise st = Some p \<Longrightarrow> ready st = (p, st)"
  by (simp add: ready_cases)

lemma ready_when_ready:
  "ready_flag st \<Longrightarrow>
     promises (snd (ready st)) ! fst (ready st) = Fulfilled () \<and> loads (snd (ready st)) = loads st
     \<and> readyPromise (snd (ready st)) = readyPromise st \<and> ready_flag (snd (ready st))"
  by (simp add: ready_cases)

lemma facade_inv_loads: "facade_inv st \<Longrightarrow> loads st \<le> 1"
  by (cases "readyPromise st") (simp_all add: facade_inv_def)

lemma facade_inv_ready_flag: "facade_inv st \<Longrightarrow> ready_flag st \<Longrightarrow> \<exists>p. readyPromise st = Some p"
  by (cases "readyPromise st") (simp_all add: facade_inv_def)

lemma fulfilled_load_settles:
  "p < length (promises st) \<Longrightarrow> promises st ! p = Fulfilled () \<Longrightarrow>
     p < length (promises (load_settles mk q outcome st))
     \<and> promises (load_settles mk q outcome st) ! p = Fulfilled ()"
  by (cases "q = p")
     (simp_all add: load_settles_def nth_list_update split: load_outcome.splits sum.splits)

lemma fulfilled_ready:
  "p < length (promises st) \<Longrightarrow> promises st ! p = Fulfilled () \<Longrightarrow>
     p < length (promises (snd (ready st))) \<and> promises (snd (ready st)) ! p = Fulfilled ()"
  by (cases "readyPromise st") (simp_all add: ready_cases nth_append)

lemma fulfilled_step:
  "p < length (promises st) \<and> promises st ! p = Fulfilled () \<Longrightarrow>
     p < length (promises (step mk ev st)) \<and> promises (step mk ev st) ! p = Fulfilled ()"
  by (cases ev) (simp_all add: fulfilled_ready fulfilled_load_settles)

lemma fulfilled_run:
  "p < length (promises st) \<and> promises st ! p = Fulfilled () \<Longrightarrow>
     p < length (promises (run mk evs st)) \<and> promises (run mk evs st) ! p = Fulfilled ()"
proof (induction evs arbitrary: st)
  case Nil
  then show ?case by simp
next
  case (Cons ev evs)
  from Cons.IH [OF fulfilled_step [OF Cons.prems, of mk ev]] show ?case by simp
qed

lemma ready_when_ready_fresh:
  "ready_flag st \<Longrightarrow>
     fst (ready st) < length (promises (snd (ready st)))
     \<and> promises (snd (ready st)) ! fst (ready st) = Fulfilled ()"
  by (simp add: ready_cases)

lemma facade_inv_memo_fulfilled:
  "facade_inv st \<Longrightarrow> ready_flag st \<Longrightarrow> readyPromise st = Some p \<Longrightarrow>
     promises st ! p = Fulfilled ()"
  by (simp add: facade_inv_def)

text \<open>
  Claim C1. Play any events, call \<open>ready()\<close>, play any further events and call
  \<open>ready()\<close> again. The loader has been invoked at most once. While \<open>_ready\<close> is false at
  the second call, the second call returns the promise the first call returned, which is
  the memoized one, and invokes no loader. Once \<open>_ready\<close> is true it stays true. Every
  call made when \<open>_ready\<close> is true, whatever came before it, returns a promise that is
  already fulfilled, invokes no loader and leaves \<open>_ready\<close> true; and by then the promise
  that the earlier call returned is fulfilled as well.
\<close>

theorem ready_initializes_at_most_once:
  fixes mk :: "'w \<Rightarrow> error + 'p"
  shows "let s1 = run mk evs1 denoise_init; s2 = run mk evs2 (snd (ready s1)) in
     loads (snd (ready s2)) \<le> 1
     \<and> (\<not> ready_flag s2 \<longrightarrow>
          fst (ready s2) = fst (ready s1) \<and> readyPromise (snd (ready s2)) = Some (fst (ready s1))
          \<and> loads (snd (ready s2)) = loads (snd (ready s1)))
     \<and> (ready_flag s1 \<longrightarrow>
          ready_flag s2 \<and> promises (snd (ready s2)) ! fst (ready s2) = Fulfilled ()
          \<and> loads (snd (ready s2)) = loads s1)
     \<and> (ready_flag s1 \<longrightarrow>
          promises (snd (ready s1)) ! fst (ready s1) = Fulfilled ()
          \<and> loads (snd (ready s1)) = loads s1 \<and> ready_flag (snd (ready s1)))
     \<and> (ready_flag s2 \<longrightarrow>
          promises (snd (ready s2)) ! fst (ready s2) = Fulfilled ()
          \<and> loads (snd (ready s2)) = loads s2 \<and> ready_flag (snd (ready s2))
          \<and> promises s2 ! fst (ready s1) = Fulfilled ())"
proof -
  define s1 :: "'p denoise_state" where "s1 = run mk evs1 denoise_init"
  define s2 where "s2 = run mk evs2 (snd (ready s1))"
  have inv1: "facade_inv s1"
    unfolding s1_def by (rule facade_inv_run [OF facade_inv_init])
  have inv2: "facade_inv s2"
    unfolding s2_def by (rule facade_inv_run [OF facade_inv_ready [OF inv1]])
  have once: "loads (snd (ready s2)) \<le> 1"
    by (rule facade_inv_loads [OF facade_inv_ready [OF inv2]])
  have shared: "fst (ready s2) = fst (ready s1) \<and> readyPromise (snd (ready s2)) = Some (fst (ready s1))
          \<and> loads (snd (ready s2)) = loads (snd (ready s1))" if nr: "\<not> ready_flag s2"
  proof -
    have nr1': "\<not> ready_flag (snd (ready s1))"
      using nr ready_flag_run [of "snd (ready s1)" mk evs2] unfolding s2_def by blast
    have nr1: "\<not> ready_flag s1"
      using nr1' ready_when_ready [of s1] by blast
    have memo1: "readyPromise (snd (ready s1)) = Some (fst (ready s1))"
      by (rule ready_returns_memo [OF nr1])
    have memo2: "readyPromise s2 = Some (fst (ready s1)) \<and> loads s2 = loads (snd (ready s1))"
      unfolding s2_def by (rule memo_run [OF memo1])
    show ?thesis
      using ready_when_memo [OF nr, of "fst (ready s1)"] memo2 by simp
  qed
  have later: "ready_flag s2 \<and> promises (snd (ready s2)) ! fst (ready s2) = Fulfilled ()
          \<and> loads (snd (ready s2)) = loads s1" if r1: "ready_flag s1"
  proof -
    have r2: "ready_flag s2"
      unfolding s2_def using ready_when_ready [OF r1] by (simp add: ready_flag_run)
    obtain p where p: "readyPromise s1 = Some p"
      using facade_inv_ready_flag [OF inv1 r1] by blast
    have p': "readyPromise (snd (ready s1)) = Some p"
      using ready_when_ready [OF r1] p by simp
    have "loads s2 = loads (snd (ready s1))"
      unfolding s2_def using memo_run [OF p', of mk evs2] by simp
    then show ?thesis
      using ready_when_ready [OF r2] ready_when_ready [OF r1] r2 by simp
  qed
  have first: "promises (snd (ready s1)) ! fst (ready s1) = Fulfilled ()
          \<and> loads (snd (ready s1)) = loads s1 \<and> ready_flag (snd (ready s1))" if r1: "ready_flag s1"
    using ready_when_ready [OF r1] by simp
  have held: "promises s2 ! fst (ready s1) = Fulfilled ()" if r2: "ready_flag s2"
  proof (cases "ready_flag s1")
    case True
    from fulfilled_run [OF ready_when_ready_fresh [OF True], of mk evs2]
    show ?thesis unfolding s2_def by simp
  next
    case False
    have memo1: "readyPromise (snd (ready s1)) = Some (fst (ready s1))"
      by (rule ready_returns_memo [OF False])
    have memo2: "readyPromise s2 = Some (fst (ready s1))"
      unfolding s2_def using memo_run [OF memo1, of mk evs2] by simp
    show ?thesis
      by (rule facade_inv_memo_fulfilled [OF inv2 r2 memo2])
  qed
  have whenever: "promises (snd (ready s2)) ! fst (ready s2) = Fulfilled ()
          \<and> loads (snd (ready s2)) = loads s2 \<and> ready_flag (snd (ready s2))
          \<and> promises s2 ! fst (ready s1) = Fulfilled ()" if r2: "ready_flag s2"
    using ready_when_ready [OF r2] held [OF r2] by simp
  show ?thesis
    unfolding Let_def s1_def [symmetric] s2_def [symmetric]
    using once shared later first whenever by blast
qed

theorem ready_initializes_at_most_once_witness:
  "let mk = (\<lambda>w :: unit. Inr w :: error + unit);
       a1 = run mk [] denoise_init;
       a2 = run mk [CallReady] (snd (ready a1));
       b1 = run mk [CallReady, CallReady, LoadSettles 0 (LoadResolved ())] denoise_init;
       b2 = run mk [CallReady] (snd (ready b1));
       c1 = run mk [] denoise_init;
       c2 = run mk [LoadSettles 0 (LoadResolved ())] (snd (ready c1))
   in \<not> ready_flag a2 \<and> fst (ready a2) = fst (ready a1)
      \<and> readyPromise (snd (ready a2)) = Some (fst (ready a1)) \<and> loads (snd (ready a2)) = 1
      \<and> ready_flag b1 \<and> ready_flag b2 \<and> loads (snd (ready b2)) = 1
      \<and> promises (snd (ready b2)) ! fst (ready b2) = Fulfilled ()
      \<and> promises (snd (ready b1)) ! fst (ready b1) = Fulfilled ()
      \<and> \<not> ready_flag c1 \<and> ready_flag c2 \<and> fst (ready c1) = 0
      \<and> promises (snd (ready c2)) ! fst (ready c2) = Fulfilled ()
      \<and> loads (snd (ready c2)) = 1 \<and> ready_flag (snd (ready c2))
      \<and> promises c2 ! fst (ready c1) = Fulfilled ()"
  using ready_initializes_at_most_once [of "\<lambda>w :: unit. Inr w :: error + unit" "[]" "[CallReady]"]
    ready_initializes_at_most_once [of "\<lambda>w :: unit. Inr w :: error + unit"
      "[CallReady, CallReady, LoadSettles 0 (LoadResolved ())]" "[CallReady]"]
    ready_initializes_at_most_once [of "\<lambda>w :: unit. Inr w :: error + unit"
      "[]" "[LoadSettles 0 (LoadResolved ())]"]
  by (simp add: Let_def ready_def initialize_def load_settles_def denoise_init_def)

section \<open>Rejected inputs\<close>

lemma await_ready_settled:
  assumes "facade_inv st"
  shows "fst (await_ready env st) \<noteq> Pending"
proof -
  obtain p st1 where r: "ready st = (p, st1)" by (cases "ready st")
  have inv1: "facade_inv st1"
    using facade_inv_ready [OF assms] r by simp
  have p: "p < length (promises st1) \<and> (\<not> ready_flag st \<longrightarrow> readyPromise st1 = Some p)
      \<and> (ready_flag st \<longrightarrow> promises st1 ! p = Fulfilled ())"
    using r assms by (cases "readyPromise st") (auto simp: ready_cases facade_inv_def split: if_splits)
  let ?st2 = "load_settles (new_DenoiseProcessor env) p (loadWasm env) st1"
  have "p < length (promises ?st2) \<and> promises ?st2 ! p \<noteq> Pending"
    using p by (auto simp: load_settles_def split: load_outcome.splits sum.splits)
  then show ?thesis
    using r by (simp add: await_ready_def Let_def)
qed

lemma await_ready_inv:
  "facade_inv st \<Longrightarrow> facade_inv (snd (await_ready env st))"
proof -
  assume inv: "facade_inv st"
  obtain p st1 where r: "ready st = (p, st1)" by (cases "ready st")
  have "facade_inv st1" using facade_inv_ready [OF inv] r by simp
  then have "facade_inv (load_settles (new_DenoiseProcessor env) p (loadWasm env) st1)"
    by (rule facade_inv_load_settles)
  then show ?thesis using r by (simp add: await_ready_def Let_def)
qed

lemma facade_inv_processed: "facade_inv (st\<lparr> processed := n \<rparr>) = facade_inv st"
  by (cases "readyPromise st") (simp_all add: facade_inv_def)

lemma facade_inv_denoise:
  assumes "facade_inv st"
  shows "facade_inv (snd (denoise env st input opts))"
proof -
  have "snd (denoise env st input opts) = st
      \<or> snd (denoise env st input opts) = snd (await_ready env st)
      \<or> snd (denoise env st input opts)
          = (snd (await_ready env st))\<lparr> processed := Suc (processed (snd (await_ready env st))) \<rparr>"
    by (auto simp: denoise_def split: prod.splits promise.splits option.splits sum.splits)
  then show ?thesis
    using assms await_ready_inv [OF assms, of env] by (auto simp: facade_inv_processed)
qed

lemma await_ready_processed:
  "processed (snd (await_ready env st)) = processed st"
proof -
  obtain p st1 where r: "ready st = (p, st1)" by (cases "ready st")
  have "processed st1 = processed st"
    using r by (cases "readyPromise st") (auto simp: ready_cases split: if_splits)
  moreover have "processed (load_settles (new_DenoiseProcessor env) p (loadWasm env) st1) = processed st1"
    by (simp add: load_settles_def split: load_outcome.splits sum.splits)
  ultimately show ?thesis using r by (simp add: await_ready_def Let_def)
qed

lemma denoise_falsy:
  "\<not> truthy input \<Longrightarrow>
     denoise env st input opts =
       (Rejected (Error ''Invalid input: input cannot be null or undefined''), st)"
  by (simp add: denoise_def)

lemma denoise_not_ready:
  "truthy input \<Longrightarrow> await_ready env st = (Rejected e, st') \<Longrightarrow>
     denoise env st input opts = (Rejected e, st')"
  by (simp add: denoise_def)

lemma denoise_normalize_rejected:
  "truthy input \<Longrightarrow> await_ready env st = (Fulfilled u, st') \<Longrightarrow>
     normalize_input env input opts = Rejected e \<Longrightarrow>
     denoise env st input opts = (Rejected e, st')"
  by (simp add: denoise_def)

lemma denoise_empty:
  "truthy input \<Longrightarrow> await_ready env st = (Fulfilled u, st') \<Longrightarrow>
     normalize_input env input opts = Fulfilled (audioData, sr) \<Longrightarrow> array_length audioData = 0 \<Longrightarrow>
     denoise env st input opts = (Rejected (Error ''Audio data is empty''), st')"
  by (simp add: denoise_def)

lemma normalize_unsupported:
  "\<not> supported_shape input \<Longrightarrow> normalize_input env input opts = Rejected (Error ''Invalid input type'')"
  by (cases input) (simp_all add: supported_shape_def)

lemma supported_truthy: "supported_shape input \<Longrightarrow> truthy input"
  by (cases input) (simp_all add: supported_shape_def)

text \<open>
  Claim C3. In a state of the facade that satisfies its invariant, an input that is none
  of the supported shapes makes \<open>denoise\<close> reject: \<open>null\<close> and \<open>undefined\<close> with the
  error for a missing input and no change of state, and any other such value, once the
  engine is ready, with the error for an unsupported type. No result is produced.
\<close>

theorem denoise_rejects_unsupported_input:
  assumes "facade_inv st" and "\<not> supported_shape input"
  shows "(\<exists>e. fst (denoise env st input opts) = Rejected e)
    \<and> (input = Null \<or> input = Undefined \<longrightarrow>
         denoise env st input opts =
           (Rejected (Error ''Invalid input: input cannot be null or undefined''), st))
    \<and> (truthy input \<and> fst (await_ready env st) = Fulfilled () \<longrightarrow>
         fst (denoise env st input opts) = Rejected (Error ''Invalid input type''))"
proof (cases "truthy input")
  case False
  then show ?thesis using denoise_falsy [of input env st opts] by auto
next
  case True
  obtain r st' where a: "await_ready env st = (r, st')" by (cases "await_ready env st")
  have np: "r \<noteq> Pending" using await_ready_settled [OF assms(1), of env] a by simp
  show ?thesis
  proof (cases r)
    case Pending
    then show ?thesis using np by simp
  next
    case (Rejected e)
    then show ?thesis using denoise_not_ready [OF True, of env st e st' opts] a True by auto
  next
    case (Fulfilled u)
    then show ?thesis
      using denoise_normalize_rejected [OF True, of env st u st' opts, OF _ normalize_unsupported [OF assms(2)]]
        a True by auto
  qed
qed

lemma example_await_ready:
  "fst (await_ready example_env denoise_init) = Fulfilled ()"
  by (simp add: await_ready_def ready_def initialize_def load_settles_def denoise_init_def
        example_env_def Let_def)

theorem denoise_rejects_unsupported_input_witness:
  "facade_inv (denoise_init :: unit denoise_state) \<and> \<not> supported_shape (Str ''invalid'')
   \<and> \<not> supported_shape Null
   \<and> fst (denoise example_env denoise_init (Str ''invalid'') no_options)
       = Rejected (Error ''Invalid input type'')
   \<and> denoise example_env denoise_init Null no_options
       = (Rejected (Error ''Invalid input: input cannot be null or undefined''), denoise_init)"
proof -
  have h1: "facade_inv (denoise_init :: unit denoise_state)" by (rule facade_inv_init)
  have h2: "\<not> supported_shape (Str ''invalid'')" by (simp add: supported_shape_def)
  have h3: "\<not> supported_shape Null" by (simp add: supported_shape_def)
  show ?thesis
    using h1 h2 h3 example_await_ready
      denoise_rejects_unsupported_input [OF h1 h2, of example_env no_options]
      denoise_rejects_unsupported_input [OF h1 h3, of example_env no_options]
    by simp
qed

section \<open>Empty audio and decode failures\<close>

lemma denoise_rejected_cases:
  assumes inv: "facade_inv st" and t: "truthy input"
    and n: "normalize_input env input opts = Rejected e \<or>
            (\<exists>audioData sr. normalize_input env input opts = Fulfilled (audioData, sr)
               \<and> array_length audioData = 0 \<and> e = Error ''Audio data is empty'')"
  shows "denoise env st input opts =
     ((case fst (await_ready env st) of Rejected e' \<Rightarrow> Rejected e' | _ \<Rightarrow> Rejected e),
      snd (await_ready env st))"
proof -
  obtain r st' where a: "await_ready env st = (r, st')" by (cases "await_ready env st")
  have np: "r \<noteq> Pending" using await_ready_settled [OF inv, of env] a by simp
  show ?thesis
  proof (cases r)
    case Pending
    then show ?thesis using np by simp
  next
    case (Rejected e')
    then show ?thesis using denoise_not_ready [OF t, of env st e' st' opts] a by simp
  next
    case (Fulfilled u)
    from n show ?thesis
    proof
      assume "normalize_input env input opts = Rejected e"
      then show ?thesis
        using denoise_normalize_rejected [OF t, of env st u st' opts e] a Fulfilled by simp
    next
      assume "\<exists>audioData sr. normalize_input env input opts = Fulfilled (audioData, sr)
               \<and> array_length audioData = 0 \<and> e = Error ''Audio data is empty''"
      then obtain audioData sr where
        "normalize_input env input opts = Fulfilled (audioData, sr)"
        "array_length audioData = 0" "e = Error ''Audio data is empty''" by blast
      then show ?thesis
        using denoise_empty [OF t, of env st u st' opts audioData sr] a Fulfilled by simp
    qed
  qed
qed

lemma normalize_fulfilled_truthy:
  "normalize_input env input opts = Fulfilled x \<Longrightarrow> truthy input"
  by (cases input) simp_all

text \<open>
  Claim C4. When the conversion of the input gives an empty sample array, \<open>denoise\<close>
  rejects and the engine has not been called: the count of calls of \<open>process\<close> is
  unchanged. The error is the one for empty audio data, unless the initialization of the
  engine failed, which is reported first.
\<close>

theorem denoise_rejects_empty_audio:
  assumes "facade_inv st"
    and "normalize_input env input opts = Fulfilled (audioData, sr)"
    and "array_length audioData = 0"
  shows "(\<exists>e. fst (denoise env st input opts) = Rejected e)
    \<and> processed (snd (denoise env st input opts)) = processed st
    \<and> (fst (await_ready env st) = Fulfilled () \<longrightarrow>
         fst (denoise env st input opts) = Rejected (Error ''Audio data is empty''))"
proof -
  have t: "truthy input" by (rule normalize_fulfilled_truthy [OF assms(2)])
  have d: "denoise env st input opts =
     ((case fst (await_ready env st) of Rejected e' \<Rightarrow> Rejected e'
        | _ \<Rightarrow> Rejected (Error ''Audio data is empty'')),
      snd (await_ready env st))"
    using assms(2,3) by (intro denoise_rejected_cases [OF assms(1) t]) blast
  show ?thesis
    unfolding d using await_ready_processed [of env st]
    by (cases "fst (await_ready env st)") simp_all
qed

theorem denoise_rejects_empty_audio_witness:
  "facade_inv (denoise_init :: unit denoise_state)
   \<and> normalize_input example_env (Float32Array (View [] [] [])) no_options
        = Fulfilled (View [] [] [], None)
   \<and> array_length (View [] [] []) = 0
   \<and> fst (denoise example_env denoise_init (Float32Array (View [] [] [])) no_options)
        = Rejected (Error ''Audio data is empty'')
   \<and> processed (snd (denoise example_env denoise_init (Float32Array (View [] [] [])) no_options)) = 0"
proof -
  have h1: "facade_inv (denoise_init :: unit denoise_state)" by (rule facade_inv_init)
  have h2: "normalize_input example_env (Float32Array (View [] [] [])) no_options
        = Fulfilled (View [] [] [], None)" by (simp add: no_options_def)
  have h3: "array_length (View [] [] []) = 0" by (simp add: array_length_def)
  have p0: "processed (denoise_init :: unit denoise_state) = 0" by (simp add: denoise_init_def)
  show ?thesis
    using h1 h2 h3 p0 example_await_ready denoise_rejects_empty_audio [OF h1 h2 h3]
    by simp
qed

text \<open>
  Claim C7. For a \<open>Blob\<close> or a \<open>File\<close> whose bytes the decoder rejects, \<open>denoise\<close>
  rejects. The decoder is reached once the engine is ready, and the error is then a new
  \<open>Error\<close> whose message is the fixed prefix followed by the message of the decoder's
  error; when the initialization failed, its error is reported and nothing is decoded.
\<close>

theorem denoise_wraps_decode_failure:
  assumes "facade_inv st"
    and "input = Blob bs ty \<or> input = File bs name ty"
    and "decodeAudioData env bs = Inl err"
  shows "(\<exists>e. fst (denoise env st input opts) = Rejected e)
    \<and> (fst (await_ready env st) = Fulfilled () \<longrightarrow>
         fst (denoise env st input opts)
           = Rejected (Error (''Failed to decode audio file: '' @ message err)))"
proof -
  have t: "truthy input" using assms(2) by auto
  have n: "normalize_input env input opts
      = Rejected (Error (''Failed to decode audio file: '' @ message err))"
    using assms(2,3) by (auto simp: decode_file_def)
  have d: "denoise env st input opts =
     ((case fst (await_ready env st) of Rejected e' \<Rightarrow> Rejected e'
        | _ \<Rightarrow> Rejected (Error (''Failed to decode audio file: '' @ message err))),
      snd (await_ready env st))"
    using n by (intro denoise_rejected_cases [OF assms(1) t]) blast
  show ?thesis
    unfolding d by (cases "fst (await_ready env st)") simp_all
qed

theorem denoise_wraps_decode_failure_witness:
  "facade_inv (denoise_init :: unit denoise_state)
   \<and> decodeAudioData example_env [1, 2, 3] = Inl (Error ''Unable to decode audio data'')
   \<and> fst (denoise example_env denoise_init (File [1, 2, 3] ''test.wav'' ''audio/wav'') no_options)
        = Rejected (Error ''Failed to decode audio file: Unable to decode audio data'')"
proof -
  have h1: "facade_inv (denoise_init :: unit denoise_state)" by (rule facade_inv_init)
  have h2: "File [1, 2, 3] ''test.wav'' ''audio/wav'' = Blob [1, 2, 3] ''audio/wav''
     \<or> File [1, 2, 3] ''test.wav'' ''audio/wav'' = File [1, 2, 3] ''test.wav'' ''audio/wav''" by simp
  have h3: "decodeAudioData example_env [1, 2, 3] = Inl (Error ''Unable to decode audio data'')"
    by (simp add: example_env_def)
  show ?thesis
    using h1 h3 example_await_ready denoise_wraps_decode_failure [OF h1 h2 h3, of no_options]
    by simp
qed

section \<open>A failed initialization\<close>

lemma failed_init_ready: "failed_init p e st \<Longrightarrow> ready st = (p, st)"
  by (simp add: failed_init_def ready_cases)

lemma failed_init_load_settles:
  assumes "facade_inv st" and "failed_init p e st"
  shows "load_settles mk q outcome st = st"
proof -
  have "\<not> (q < length (promises st) \<and> promises st ! q = Pending)"
  proof
    assume q: "q < length (promises st) \<and> promises st ! q = Pending"
    then have "readyPromise st = Some q"
      using assms(1) unfolding facade_inv_def by blast
    then show False using q assms(2) by (simp add: failed_init_def)
  qed
  then show ?thesis by (auto simp: load_settles_def)
qed

lemma failed_init_step:
  "facade_inv st \<Longrightarrow> failed_init p e st \<Longrightarrow> step mk ev st = st"
  by (cases ev) (simp_all add: failed_init_ready failed_init_load_settles)

lemma failed_init_run:
  "facade_inv st \<Longrightarrow> failed_init p e st \<Longrightarrow> run mk evs st = st"
  by (induction evs) (simp_all add: failed_init_step)

lemma failed_init_await:
  assumes "facade_inv st" and "failed_init p e st"
  shows "await_ready env st = (Rejected e, st)"
  using assms(2) failed_init_ready [OF assms(2)]
    failed_init_load_settles [OF assms, of "new_DenoiseProcessor env" p "loadWasm env"]
  by (simp add: await_ready_def Let_def failed_init_def)

text \<open>
  Claim C9, as stated, fails: after a failed initialization a call of \<open>denoise\<close> with
  \<open>null\<close> is rejected with the error for a missing input, which is checked before
  \<open>ready()\<close> is awaited, and not with the error of the initialization.
\<close>

theorem sticky_failure_counterexample:
  "facade_inv failed_state \<and> failed_init 0 (Error ''load failed'') failed_state
   \<and> fst (denoise example_env failed_state Null no_options)
        = Rejected (Error ''Invalid input: input cannot be null or undefined'')
   \<and> fst (denoise example_env failed_state Null no_options) \<noteq> Rejected (Error ''load failed'')"
proof -
  have "facade_inv failed_state"
    unfolding failed_state_def by (rule facade_inv_run [OF facade_inv_init])
  moreover have "failed_init 0 (Error ''load failed'') failed_state"
    by (simp add: failed_state_def failed_init_def ready_def initialize_def load_settles_def
          denoise_init_def)
  moreover have "fst (denoise example_env failed_state Null no_options)
        = Rejected (Error ''Invalid input: input cannot be null or undefined'')"
    by (simp add: denoise_def)
  ultimately show ?thesis by simp
qed

text \<open>
  Claim C9, amended. After a failed initialization no event changes the facade: the
  memoized promise stays the rejected one, \<open>_ready\<close> stays false and the loader is not
  invoked again. Every later call of \<open>ready()\<close> returns that rejected promise, and every
  later call of \<open>denoise\<close> with an input that is not falsy is rejected with the error of
  the initialization. A call of \<open>denoise\<close> with \<open>null\<close> or \<open>undefined\<close> is rejected with
  the error for a missing input.
\<close>

theorem failed_initialization_is_sticky:
  assumes "facade_inv st" and "failed_init p e st"
  shows "run mk evs st = st
    \<and> ready (run mk evs st) = (p, st)
    \<and> (truthy input \<longrightarrow> denoise env (run mk evs st) input opts = (Rejected e, st))
    \<and> (\<not> truthy input \<longrightarrow>
         denoise env (run mk evs st) input opts
           = (Rejected (Error ''Invalid input: input cannot be null or undefined''), st))"
proof -
  have r: "run mk evs st = st" by (rule failed_init_run [OF assms])
  have a: "await_ready env st = (Rejected e, st)" by (rule failed_init_await [OF assms])
  show ?thesis
    unfolding r
    using failed_init_ready [OF assms(2)] denoise_not_ready [of input env st e st opts, OF _ a]
      denoise_falsy [of input env st opts]
    by simp
qed

theorem failed_initialization_is_sticky_witness:
  "facade_inv failed_state \<and> failed_init 0 (Error ''load failed'') failed_state
   \<and> truthy (Float32Array (View [] [0] [])) \<and> \<not> truthy Undefined
   \<and> run Inr [CallReady, LoadSettles 0 (LoadResolved ()), CallReady] failed_state = failed_state
   \<and> ready (run Inr [CallReady, LoadSettles 0 (LoadResolved ()), CallReady] failed_state)
        = (0, failed_state)
   \<and> denoise example_env (run Inr [CallReady, LoadSettles 0 (LoadResolved ()), CallReady] failed_state)
        (Float32Array (View [] [0] [])) no_options
        = (Rejected (Error ''load failed''), failed_state)
   \<and> denoise example_env (run Inr [CallReady, LoadSettles 0 (LoadResolved ()), CallReady] failed_state)
        Undefined no_options
        = (Rejected (Error ''Invalid input: input cannot be null or undefined''), failed_state)"
proof -
  have h1: "facade_inv failed_state"
    unfolding failed_state_def by (rule facade_inv_run [OF facade_inv_init])
  have h2: "failed_init 0 (Error ''load failed'') failed_state"
    by (simp add: failed_state_def failed_init_def ready_def initialize_def load_settles_def
          denoise_init_def)
  have h3: "truthy (Float32Array (View [] [0] []))" by simp
  have h4: "\<not> truthy Undefined" by simp
  note t = failed_initialization_is_sticky [OF h1 h2, of Inr
      "[CallReady, LoadSettles 0 (LoadResolved ()), CallReady]" _ example_env no_options]
  show ?thesis
    using h1 h2 h3 h4 t [of "Float32Array (View [] [0] [])"] t [of Undefined]
    by blast
qed

section \<open>Properties of the hook\<close>

lemma stop_each_append: "stop_each calls ts = calls @ ts"
  by (induction ts arbitrary: calls) simp_all

lemma count_list_distinct:
  "distinct xs \<Longrightarrow> count_list xs t = (if t \<in> set xs then 1 else 0)"
  by (induction xs) auto

lemma startMicrophone_stores_stream:
  "startMicrophone env h0 = (Fulfilled out, h) \<Longrightarrow>
     \<exists>stream. getUserMedia env = Inr stream \<and> microphoneStreamRef h = Some stream
       \<and> stopped h = stopped h0"
  by (auto simp: startMicrophone_def Let_def split: sum.splits option.splits if_splits)

text \<open>
  Claim C8. With a stream stored by \<open>startMicrophone\<close>, one call of \<open>stopMicrophone\<close>
  calls \<open>stop()\<close> once for each track that \<open>getTracks()\<close> lists, in that order and on
  no other track, and clears the stored stream; a second call stops nothing.
\<close>

theorem stopMicrophone_stops_each_track_once:
  assumes "microphoneStreamRef h = Some stream"
  shows "stopped (stopMicrophone h) = stopped h @ stream
    \<and> microphoneStreamRef (stopMicrophone h) = None
    \<and> (\<forall>t. count_list (stopped (stopMicrophone h)) t
             = count_list (stopped h) t + count_list stream t)
    \<and> (distinct stream \<longrightarrow>
         (\<forall>t. count_list (stopped (stopMicrophone h)) t
                = count_list (stopped h) t + (if t \<in> set stream then 1 else 0)))
    \<and> stopMicrophone (stopMicrophone h) = stopMicrophone h"
proof -
  have s: "stopMicrophone h = h\<lparr> stopped := stopped h @ stream, microphoneStreamRef := None \<rparr>"
    using assms by (simp add: stopMicrophone_def stop_each_append)
  have again: "stopMicrophone (stopMicrophone h) = stopMicrophone h"
    unfolding s by (simp add: stopMicrophone_def)
  show ?thesis
    using again unfolding s by (simp add: count_list_distinct)
qed

theorem stopMicrophone_stops_each_track_once_witness:
  "microphoneStreamRef (snd (startMicrophone example_mic (hook_init None))) = Some [7, 8]
   \<and> distinct [7, 8 :: nat]
   \<and> stopped (stopMicrophone (snd (startMicrophone example_mic (hook_init None)))) = [7, 8]
   \<and> microphoneStreamRef (stopMicrophone (snd (startMicrophone example_mic (hook_init None)))) = None
   \<and> stopped (stopMicrophone (stopMicrophone (snd (startMicrophone example_mic (hook_init None)))))
        = [7, 8]"
proof -
  have h: "microphoneStreamRef (snd (startMicrophone example_mic (hook_init None))) = Some [7, 8]"
    by (simp add: startMicrophone_def example_mic_def hook_init_def)
  have s0: "stopped (snd (startMicrophone example_mic (hook_init None))) = []"
    by (simp add: startMicrophone_def example_mic_def hook_init_def)
  show ?thesis
    using h s0 stopMicrophone_stops_each_track_once [OF h] by simp
qed

lemma format_result_kinds:
  "format_result opts sr d = Fulfilled v \<Longrightarrow>
     (\<exists>bs. v = ArrayBuffer bs) \<or> (\<exists>bs ty. v = Blob bs ty) \<or> (\<exists>a. v = Float32Array a)"
  by (cases d) (auto simp: format_result_def split: option.splits return_type.splits sum.splits)

lemma denoise_result_kinds:
  assumes "fst (denoise env st input opts) = Fulfilled v"
  shows "(\<exists>bs. v = ArrayBuffer bs) \<or> (\<exists>bs ty. v = Blob bs ty) \<or> (\<exists>a. v = Float32Array a)"
proof -
  have "\<exists>sr d. format_result opts sr d = Fulfilled v"
    using assms
    by (auto simp: denoise_def split: if_splits prod.splits promise.splits option.splits sum.splits)
  then show ?thesis using format_result_kinds by blast
qed

lemma denoiseAudio_result:
  "fst (denoiseAudio env hs input dopts) =
     (case fst (denoise env (snd hs) input (spread_options dopts (hook_model (fst hs)))) of
        Pending \<Rightarrow> Pending
      | Rejected e \<Rightarrow> Rejected e
      | Fulfilled result \<Rightarrow>
          (case ensure_ArrayBuffer result of Inl e \<Rightarrow> Rejected e | Inr b \<Rightarrow> Fulfilled b))"
  by (simp add: denoiseAudio_def Let_def split: prod.splits promise.splits sum.splits)

lemma ensure_ArrayBuffer_Inr:
  "ensure_ArrayBuffer result = Inr v \<Longrightarrow> \<exists>bs. v = ArrayBuffer bs"
  by (cases result) auto

text \<open>
  Claim C10. Whatever the requested representation, a value that the hook's \<open>denoise\<close>
  resolves to is an \<open>ArrayBuffer\<close>. Whenever the underlying operation resolves, so does
  the hook: with the result itself when it is an \<open>ArrayBuffer\<close>, with the bytes of the
  container file when it is a \<open>Blob\<close>, and with the underlying buffer of the typed array
  when it is a \<open>Float32Array\<close>.
\<close>

theorem hook_denoise_resolves_to_ArrayBuffer:
  "(\<forall>v. fst (denoiseAudio env hs input dopts) = Fulfilled v \<longrightarrow> (\<exists>bs. v = ArrayBuffer bs))
   \<and> (\<forall>result.
        fst (denoise env (snd hs) input (spread_options dopts (hook_model (fst hs))))
          = Fulfilled result \<longrightarrow>
        (\<exists>bs. fst (denoiseAudio env hs input dopts) = Fulfilled (ArrayBuffer bs)
           \<and> (result = ArrayBuffer bs \<or> (\<exists>ty. result = Blob bs ty)
              \<or> (\<exists>a. result = Float32Array a \<and> bs = buffer_of a))))"
proof (intro conjI allI impI)
  fix v
  assume "fst (denoiseAudio env hs input dopts) = Fulfilled v"
  then show "\<exists>bs. v = ArrayBuffer bs"
    using ensure_ArrayBuffer_Inr
    by (auto simp: denoiseAudio_result split: promise.splits sum.splits)
next
  fix result
  assume r: "fst (denoise env (snd hs) input (spread_options dopts (hook_model (fst hs))))
          = Fulfilled result"
  from denoise_result_kinds [OF r]
  show "\<exists>bs. fst (denoiseAudio env hs input dopts) = Fulfilled (ArrayBuffer bs)
           \<and> (result = ArrayBuffer bs \<or> (\<exists>ty. result = Blob bs ty)
              \<or> (\<exists>a. result = Float32Array a \<and> bs = buffer_of a))"
    using r by (auto simp: denoiseAudio_result)
qed

lemma example_denoise_float32array:
  "fst (denoise example_env denoise_init (Float32Array (View [] [1] []))
          (spread_options (Some (no_options\<lparr> returnType := Some float32array \<rparr>)) None))
     = Fulfilled (Float32Array (View [] [1] []))"
  by (simp add: denoise_def await_ready_def ready_def initialize_def load_settles_def
        denoise_init_def example_env_def Let_def spread_options_def no_options_def
        array_length_def format_result_def Float32Array_copy_def)

theorem hook_denoise_resolves_to_ArrayBuffer_witness:
  "fst (denoise example_env (snd (hook_init None, denoise_init)) (Float32Array (View [] [1] []))
          (spread_options (Some (no_options\<lparr> returnType := Some float32array \<rparr>))
             (hook_model (fst (hook_init None, denoise_init :: unit denoise_state)))))
     = Fulfilled (Float32Array (View [] [1] []))
   \<and> fst (denoiseAudio example_env (hook_init None, denoise_init) (Float32Array (View [] [1] []))
          (Some (no_options\<lparr> returnType := Some float32array \<rparr>)))
     = Fulfilled (ArrayBuffer (buffer_of (View [] [1] [])))"
proof -
  have m: "hook_model (fst (hook_init None, denoise_init :: unit denoise_state)) = None"
    by (simp add: hook_init_def)
  have d: "fst (denoise example_env (snd (hook_init None, denoise_init)) (Float32Array (View [] [1] []))
          (spread_options (Some (no_options\<lparr> returnType := Some float32array \<rparr>))
             (hook_model (fst (hook_init None, denoise_init :: unit denoise_state)))))
     = Fulfilled (Float32Array (View [] [1] []))"
    unfolding m using example_denoise_float32array by simp
  show ?thesis
    using d hook_denoise_resolves_to_ArrayBuffer [of example_env "(hook_init None, denoise_init)"
        "Float32Array (View [] [1] [])" "Some (no_options\<lparr> returnType := Some float32array \<rparr>)"]
    by auto
qed

section \<open>Properties of the container file\<close>

lemma word16_of_bytes:
  "(ucast (ucast w :: byte) OR push_bit 8 (ucast (ucast (drop_bit 8 w) :: byte)) :: 16 word) = w"
  by (rule bit_word_eqI) (auto simp: bit_simps)

lemma word32_of_bytes_of_word32:
  "word32_of_bytes (ucast w) (ucast (drop_bit 8 w)) (ucast (drop_bit 16 w)) (ucast (drop_bit 24 w)) = w"
  unfolding word32_of_bytes_def
proof (rule bit_word_eqI)
  fix n :: nat
  assume "n < LENGTH(32)"
  then have n: "n < 32" by simp
  consider "n < 8" | "8 \<le> n \<and> n < 16" | "16 \<le> n \<and> n < 24" | "24 \<le> n \<and> n < 32"
    using n by linarith
  then show "bit (ucast (ucast w :: byte) OR push_bit 8 (ucast (ucast (drop_bit 8 w) :: byte))
        OR push_bit 16 (ucast (ucast (drop_bit 16 w) :: byte))
        OR push_bit 24 (ucast (ucast (drop_bit 24 w) :: byte)) :: 32 word) n = bit w n"
    by cases (auto simp: bit_simps)
qed

lemma getInt16_bytes:
  "length P = off \<Longrightarrow> getInt16 (P @ bytes_of_word16 w @ R) off = sint w"
  by (simp add: getInt16_def bytes_of_word16_def nth_append word16_of_bytes)

lemma getUint32_bytes:
  "length P = off \<Longrightarrow> getUint32 (P @ bytes_of_word32 w @ R) off = unat w"
  by (simp add: getUint32_def bytes_of_word32_def nth_append word32_of_bytes_of_word32)

lemma store_prefix:
  "off + length bs \<le> length h \<Longrightarrow>
     store (h @ t) off bs = Inr ((take off h @ bs @ drop (off + length bs) h) @ t)"
  by (simp add: store_def)

lemma store_at:
  "length P = off \<Longrightarrow> length bs \<le> length R \<Longrightarrow>
     store (P @ R) off bs = Inr (P @ bs @ drop (length bs) R)"
  by (simp add: store_def)

lemma f32_half: "f32_value 0x3F000000 = Num (1 / 2)"
  by (simp add: f32_value_def Let_def drop_bit_eq_div take_bit_eq_mod bit_iff_odd)


lemma replicate_44: "replicate 44 (x :: byte) = 
  [x,x,x,x,x,x,x,x,x,x,x,x,x,x,x,x,x,x,x,x,x,x,x,x,x,x,x,x,x,x,x,x,x,x,x,x,x,x,x,x,x,x,x,x]"
  by (simp add: numeral_eq_Suc)

lemma trunc_of_nat [simp]: "trunc (of_nat n) = int n"
  by (simp add: trunc_def)

lemma trunc_numeral [simp]: "trunc (numeral k) = numeral k"
  by (simp add: trunc_def)

lemma trunc_one [simp]: "trunc 1 = 1"
  by (simp add: trunc_def)

lemma header_written:
  "and_then (writeString (replicate 44 0 @ t) 0 ''RIFF'') (\<lambda>b.
   and_then (setUint32 b 4 (Num (of_nat (36 + len * 2)))) (\<lambda>b.
   and_then (writeString b 8 ''WAVE'') (\<lambda>b.
   and_then (writeString b 12 ''fmt '') (\<lambda>b.
   and_then (setUint32 b 16 (Num 16)) (\<lambda>b.
   and_then (setUint16 b 20 (Num 1)) (\<lambda>b.
   and_then (setUint16 b 22 (Num 1)) (\<lambda>b.
   and_then (setUint32 b 24 rate) (\<lambda>b.
   and_then (setUint32 b 28 (num_times (\<lambda>x. x) rate (Num 2))) (\<lambda>b.
   and_then (setUint16 b 32 (Num 2)) (\<lambda>b.
   and_then (setUint16 b 34 (Num 16)) (\<lambda>b.
   and_then (writeString b 36 ''data'') (\<lambda>b.
   and_then (setUint32 b 40 (Num (of_nat (len * 2)))) k))))))))))))
   = k (wav_header len rate @ t)"
  unfolding replicate_44 wav_header_def ascii_def
  by (simp add: setUint8_def setUint16_def setUint32_def store_def
        bytes_of_word32_def bytes_of_word16_def del: of_nat_add of_nat_mult)

lemma length_bytes_of_word16 [simp]: "length (bytes_of_word16 w) = 2"
  by (simp add: bytes_of_word16_def)

lemma length_sample_bytes [simp]: "length (sample_bytes w) = 2"
  by (simp add: sample_bytes_def bytes_of_word16_def)

lemma length_samples [simp]: "length (concat (map sample_bytes ws)) = 2 * length ws"
  by (induction ws) simp_all

lemma length_wav_header [simp]: "length (wav_header len rate) = 44"
  by (simp add: wav_header_def ascii_def bytes_of_word32_def bytes_of_word16_def)

lemma write_samples_closed:
  "k = array_length a - i \<Longrightarrow> i \<le> array_length a \<Longrightarrow> length P = 44 + 2 * i \<Longrightarrow>
     length R = 2 * (array_length a - i) \<Longrightarrow>
     write_samples a i (P @ R) = Inr (P @ concat (map sample_bytes (drop i (elems a))))"
proof (induction k arbitrary: i P R)
  case 0
  then have "i = array_length a" by simp
  then show ?case
    using 0 by (subst write_samples.simps) (simp add: array_length_def)
next
  case (Suc k)
  then have lt: "i < array_length a" by simp
  let ?bs = "sample_bytes (elems a ! i)"
  have st: "setInt16 (P @ R) (44 + i * 2)
       (num_times (\<lambda>x. x) (Math_max (Num (- 1)) (Math_min (Num 1) (element_at a i))) (Num 32767))
     = Inr (P @ ?bs @ drop 2 R)"
    using lt Suc.prems store_at [of P "44 + i * 2" ?bs R]
    by (simp add: setInt16_def element_at_def sample_bytes_def mult.commute)
  have ih: "write_samples a (Suc i) ((P @ ?bs) @ drop 2 R)
     = Inr ((P @ ?bs) @ concat (map sample_bytes (drop (Suc i) (elems a))))"
    using Suc.prems lt by (intro Suc.IH) simp_all
  have dr: "drop i (elems a) = elems a ! i # drop (Suc i) (elems a)"
    using lt by (simp add: array_length_def Cons_nth_drop_Suc)
  show ?case
    using lt st ih by (subst write_samples.simps) (simp add: dr Let_def)
qed

lemma createWavFile_closed:
  "createWavFile a rate = Inr (wav_header (array_length a) rate @ concat (map sample_bytes (elems a)))"
proof -
  have "createWavFile a rate
      = write_samples a 0 (wav_header (array_length a) rate @ replicate (array_length a * 2) 0)"
    unfolding createWavFile_def Let_def replicate_add by (rule header_written)
  also have "\<dots> = Inr (wav_header (array_length a) rate @ concat (map sample_bytes (drop 0 (elems a))))"
    by (rule write_samples_closed [where k = "array_length a"]) simp_all
  finally show ?thesis by simp
qed

lemma clip_range:
  "clip x = Num c \<Longrightarrow> - 1 \<le> c \<and> c \<le> 1"
  by (cases x) (auto split: if_splits)

lemma trunc_scaled:
  assumes "- 1 \<le> c" and "c \<le> 1"
  shows "- 32767 \<le> trunc (c * 32767) \<and> trunc (c * 32767) \<le> 32767"
proof -
  have "- 32767 \<le> c * 32767" "c * 32767 \<le> 32767" using assms by simp_all
  then show ?thesis
    unfolding trunc_def by (auto simp: le_floor_iff floor_le_iff ceiling_le_iff le_ceiling_iff)
qed

lemma pcm16_range: "- 32767 \<le> pcm16 x \<and> pcm16 x \<le> 32767"
proof (cases "clip x")
  case (Num c)
  then show ?thesis using trunc_scaled [of c] clip_range [OF Num] by simp
qed simp_all

lemma clip_Math: "Math_max (Num (- 1)) (Math_min (Num 1) x) = clip x"
  by (cases x) (auto simp: min_def max_def)

lemma sample_is_pcm16:
  "sint (to_word (num_times (\<lambda>x. x) (Math_max (Num (- 1)) (Math_min (Num 1) x)) (Num 32767)) :: 16 word)
     = pcm16 x"
proof (cases "clip x")
  case (Num c)
  have "sint (word_of_int (trunc (c * 32767)) :: 16 word) = trunc (c * 32767)"
    using trunc_scaled [of c] clip_range [OF Num]
    by (simp add: sint_sbintrunc' signed_take_bit_int_eq_self)
  then show ?thesis using Num by (simp add: clip_Math)
next
  case PosInf
  then show ?thesis by (cases x) (simp_all split: if_splits)
next
  case NegInf
  then show ?thesis by (cases x) (simp_all split: if_splits)
next
  case NaN
  then show ?thesis by (simp add: clip_Math)
qed

lemma getInt16_sample:
  assumes "i < length ws" and "length H = 44"
  shows "getInt16 (H @ concat (map sample_bytes ws)) (44 + 2 * i) = pcm16 (f32_value (ws ! i))"
proof -
  have ws: "ws = take i ws @ ws ! i # drop (Suc i) ws"
    using assms(1) by (simp add: id_take_nth_drop)
  have "H @ concat (map sample_bytes ws)
      = (H @ concat (map sample_bytes (take i ws))) @ sample_bytes (ws ! i)
          @ concat (map sample_bytes (drop (Suc i) ws))"
    by (subst ws) simp
  moreover have "length (H @ concat (map sample_bytes (take i ws))) = 44 + 2 * i"
    using assms by simp
  ultimately show ?thesis
    using getInt16_bytes [of "H @ concat (map sample_bytes (take i ws))" "44 + 2 * i"]
    by (simp add: sample_bytes_def sample_is_pcm16)
qed

lemma header_tag: "take 4 (wav_header len rate @ t) = ascii ''RIFF''"
  by (simp add: wav_header_def ascii_def)

lemma header_rate: "getUint32 (wav_header len rate @ t) 24 = unat (to_word rate :: 32 word)"
  by (simp add: wav_header_def ascii_def getUint32_def bytes_of_word32_def bytes_of_word16_def
        nth_append word32_of_bytes_of_word32)

lemma trunc_half_scale: "trunc (32767 / 2) = 16383"
  by (simp add: trunc_def floor_eq_iff)

lemma example_createWavFile: "createWavFile example_audio (Num 48000) = Inr example_wav"
  by (simp add: trunc_half_scale createWavFile_closed example_audio_def example_wav_def array_length_def
        wav_header_def ascii_def sample_bytes_def bytes_of_word32_def bytes_of_word16_def
        f32_half)

lemma denoise_fulfilled:
  assumes "fst (denoise env st input opts) = Fulfilled v"
  shows "\<exists>audioData sr proc d.
      normalize_input env input opts = Fulfilled (audioData, sr)
      \<and> processor (snd (await_ready env st)) = Some proc
      \<and> process env proc audioData (opts\<lparr> sampleRate := or_else sr (sampleRate opts) (\<lambda>r. Some r) \<rparr>)
          = Inr d
      \<and> format_result opts sr d = Fulfilled v"
  using assms
  by (auto simp: denoise_def split: if_splits prod.splits promise.splits option.splits sum.splits)

lemma format_result_blob:
  assumes "returnType opts = Some blob" and "format_result opts sr d = Fulfilled v"
  shows "\<exists>samples bytes. new_Float32Array d = Inr samples
      \<and> createWavFile samples (or_else sr (Num 48000) (\<lambda>r. r)) = Inr bytes
      \<and> v = Blob bytes ''audio/wav''"
  using assms by (auto simp: format_result_def split: sum.splits)

lemma format_result_is_blob:
  assumes "format_result opts sr d = Fulfilled (Blob bytes ty)"
  shows "returnType opts = Some blob"
  using assms
  by (cases d) (auto simp: format_result_def split: option.splits return_type.splits sum.splits)

lemma normalize_effective_rate:
  "normalize_input env input opts = Fulfilled (a, sr) \<Longrightarrow> sr = effective_rate env input opts"
  by (cases input)
     (auto simp: effective_rate_def decode_file_def split: sum.splits option.splits promise.splits)

lemma example_denoise_blob:
  "fst (denoise example_env denoise_init (Float32Array example_audio)
          (no_options\<lparr> returnType := Some blob, sampleRate := r \<rparr>))
     = Fulfilled (Blob (case createWavFile example_audio (or_else r (Num 48000) (\<lambda>r. r)) of
                          Inr bytes \<Rightarrow> bytes | Inl e \<Rightarrow> []) ''audio/wav'')"
  by (simp add: denoise_def await_ready_def ready_def initialize_def load_settles_def
        denoise_init_def example_env_def Let_def no_options_def example_audio_def
        array_length_def format_result_def Float32Array_copy_def createWavFile_closed)

text \<open>
  Claim C2. \<open>createWavFile\<close> never throws. The buffer it returns has 44 bytes of header,
  which begin with the tag \<open>RIFF\<close>, and then two bytes for each sample of the array it
  is given: read back as a little-endian signed 16-bit integer, they are the sample
  clipped to \<open>[-1, 1]\<close>, multiplied by 32767 and cut to an integer, a value from -32767
  to 32767. When a \<open>blob\<close> is requested, what \<open>denoise\<close> resolves to is a \<open>Blob\<close> of type
  \<open>audio/wav\<close> that holds this buffer for the samples the engine returned.
\<close>

theorem container_file_layout:
  "(\<exists>bytes. createWavFile audioData rate = Inr bytes
      \<and> length bytes = 44 + 2 * array_length audioData
      \<and> take 4 bytes = ascii ''RIFF''
      \<and> (\<forall>i < array_length audioData.
            getInt16 bytes (44 + 2 * i) = pcm16 (element_at audioData i)
            \<and> - 32767 \<le> pcm16 (element_at audioData i)
            \<and> pcm16 (element_at audioData i) \<le> 32767))
   \<and> (returnType opts = Some blob \<longrightarrow>
        (\<forall>v. fst (denoise env st input opts) = Fulfilled v \<longrightarrow>
           (\<exists>a sr proc d samples bytes.
              normalize_input env input opts = Fulfilled (a, sr)
              \<and> process env proc a (opts\<lparr> sampleRate := or_else sr (sampleRate opts) (\<lambda>r. Some r) \<rparr>)
                  = Inr d
              \<and> new_Float32Array d = Inr samples
              \<and> createWavFile samples (or_else sr (Num 48000) (\<lambda>r. r)) = Inr bytes
              \<and> v = Blob bytes ''audio/wav'')))"
proof (intro conjI impI allI)
  let ?bytes = "wav_header (array_length audioData) rate @ concat (map sample_bytes (elems audioData))"
  have "\<forall>i < array_length audioData.
      getInt16 ?bytes (44 + 2 * i) = pcm16 (element_at audioData i)
      \<and> - 32767 \<le> pcm16 (element_at audioData i) \<and> pcm16 (element_at audioData i) \<le> 32767"
    using getInt16_sample [of _ "elems audioData" "wav_header (array_length audioData) rate"]
      pcm16_range
    by (simp add: array_length_def element_at_def)
  then show "\<exists>bytes. createWavFile audioData rate = Inr bytes
      \<and> length bytes = 44 + 2 * array_length audioData
      \<and> take 4 bytes = ascii ''RIFF''
      \<and> (\<forall>i < array_length audioData.
            getInt16 bytes (44 + 2 * i) = pcm16 (element_at audioData i)
            \<and> - 32767 \<le> pcm16 (element_at audioData i)
            \<and> pcm16 (element_at audioData i) \<le> 32767)"
    using header_tag [of "array_length audioData" rate]
    by (simp add: createWavFile_closed array_length_def)
next
  fix v
  assume b: "returnType opts = Some blob" and f: "fst (denoise env st input opts) = Fulfilled v"
  from denoise_fulfilled [OF f] obtain a sr proc d where
    n: "normalize_input env input opts = Fulfilled (a, sr)"
    and p: "process env proc a (opts\<lparr> sampleRate := or_else sr (sampleRate opts) (\<lambda>r. Some r) \<rparr>) = Inr d"
    and r: "format_result opts sr d = Fulfilled v" by blast
  from format_result_blob [OF b r] n p
  show "\<exists>a sr proc d samples bytes.
              normalize_input env input opts = Fulfilled (a, sr)
              \<and> process env proc a (opts\<lparr> sampleRate := or_else sr (sampleRate opts) (\<lambda>r. Some r) \<rparr>)
                  = Inr d
              \<and> new_Float32Array d = Inr samples
              \<and> createWavFile samples (or_else sr (Num 48000) (\<lambda>r. r)) = Inr bytes
              \<and> v = Blob bytes ''audio/wav''" by blast
qed

theorem container_file_layout_witness:
  "createWavFile example_audio (Num 48000) = Inr example_wav
   \<and> (0 :: nat) < array_length example_audio
   \<and> element_at example_audio 0 = Num (1 / 2)
   \<and> getInt16 example_wav (44 + 2 * 0) = 16383
   \<and> returnType (no_options\<lparr> returnType := Some blob, sampleRate := Some (Num 48000) \<rparr>) = Some blob
   \<and> fst (denoise example_env denoise_init (Float32Array example_audio)
            (no_options\<lparr> returnType := Some blob, sampleRate := Some (Num 48000) \<rparr>))
        = Fulfilled (Blob example_wav ''audio/wav'')"
proof -
  have len: "(0 :: nat) < array_length example_audio"
    by (simp add: example_audio_def array_length_def)
  have el: "element_at example_audio 0 = Num (1 / 2)"
    by (simp add: element_at_def example_audio_def array_length_def f32_half)
  have pc: "pcm16 (Num (1 / 2)) = 16383"
    by (simp add: trunc_half_scale)
  have bl: "returnType (no_options\<lparr> returnType := Some blob, sampleRate := Some (Num 48000) \<rparr>) = Some blob"
    by simp
  have dn: "fst (denoise example_env denoise_init (Float32Array example_audio)
            (no_options\<lparr> returnType := Some blob, sampleRate := Some (Num 48000) \<rparr>))
        = Fulfilled (Blob example_wav ''audio/wav'')"
    using example_denoise_blob [of "Some (Num 48000)"] by (simp add: example_createWavFile)
  show ?thesis
    using len el pc bl dn example_createWavFile
      container_file_layout [of example_audio "Num 48000"
        "no_options\<lparr> returnType := Some blob, sampleRate := Some (Num 48000) \<rparr>"
        example_env denoise_init "Float32Array example_audio"]
    by auto
qed

text \<open>
  Claim C6, as stated, fails: for a sample array given without a sample rate, and for one
  given with the sample rate 0, the header declares 48000, which is not the rate the
  caller supplied.
\<close>

theorem declared_rate_counterexample:
  "effective_rate example_env (Float32Array example_audio)
       (no_options\<lparr> returnType := Some blob, sampleRate := Some (Num 0) \<rparr>) = Some (Num 0)
   \<and> fst (denoise example_env denoise_init (Float32Array example_audio)
            (no_options\<lparr> returnType := Some blob, sampleRate := Some (Num 0) \<rparr>))
        = Fulfilled (Blob example_wav ''audio/wav'')
   \<and> effective_rate example_env (Float32Array example_audio)
       (no_options\<lparr> returnType := Some blob, sampleRate := None \<rparr>) = None
   \<and> fst (denoise example_env denoise_init (Float32Array example_audio)
            (no_options\<lparr> returnType := Some blob, sampleRate := None \<rparr>))
        = Fulfilled (Blob example_wav ''audio/wav'')
   \<and> getUint32 example_wav 24 = 48000"
proof -
  have "getUint32 example_wav 24 = 48000"
    by (simp add: example_wav_def getUint32_def word32_of_bytes_def)
  then show ?thesis
    using example_denoise_blob [of "Some (Num 0)"] example_denoise_blob [of None]
    by (simp add: example_createWavFile effective_rate_def)
qed

lemma to_word_rate:
  "k < 2 ^ 32 \<Longrightarrow> unat (to_word (Num (of_nat k)) :: 32 word) = k"
  by (simp add: unat_of_nat)

text \<open>
  Claim C6, amended. In every container file that \<open>denoise\<close> resolves to, the 32-bit
  field at offset 24 of the header holds the effective sample rate of the input (the rate
  of the decoded file for a \<open>Blob\<close> or a \<open>File\<close>, otherwise the rate the caller supplied)
  converted to an unsigned 32-bit integer, and so equals that rate when it is a whole
  number from 1 to \<open>2 ^ 32 - 1\<close>. When there is no rate, or the rate is 0 or NaN, the
  field holds 48000.
\<close>

theorem declared_rate_is_effective_rate:
  assumes "fst (denoise env st input opts) = Fulfilled (Blob bytes ty)"
  shows "returnType opts = Some blob
    \<and> getUint32 bytes 24
        = unat (to_word (or_else (effective_rate env input opts) (Num 48000) (\<lambda>r. r)) :: 32 word)
    \<and> (\<forall>k. effective_rate env input opts = Some (Num (of_nat k)) \<and> 0 < k \<and> k < 2 ^ 32 \<longrightarrow>
          getUint32 bytes 24 = k)
    \<and> (effective_rate env input opts = None \<or> effective_rate env input opts = Some (Num 0)
        \<or> effective_rate env input opts = Some NaN \<longrightarrow> getUint32 bytes 24 = 48000)"
proof -
  from denoise_fulfilled [OF assms] obtain a sr d where
    n: "normalize_input env input opts = Fulfilled (a, sr)"
    and r: "format_result opts sr d = Fulfilled (Blob bytes ty)" by blast
  have b: "returnType opts = Some blob" by (rule format_result_is_blob [OF r])
  have sr: "sr = effective_rate env input opts" by (rule normalize_effective_rate [OF n])
  from format_result_blob [OF b r] obtain samples where
    "createWavFile samples (or_else sr (Num 48000) (\<lambda>r. r)) = Inr bytes" by auto
  then have bytes: "bytes = wav_header (array_length samples) (or_else sr (Num 48000) (\<lambda>r. r))
      @ concat (map sample_bytes (elems samples))"
    by (simp add: createWavFile_closed)
  have g: "getUint32 bytes 24
        = unat (to_word (or_else (effective_rate env input opts) (Num 48000) (\<lambda>r. r)) :: 32 word)"
    unfolding bytes sr by (rule header_rate)
  have k: "getUint32 bytes 24 = k"
    if "effective_rate env input opts = Some (Num (of_nat k))" "0 < k" "k < 2 ^ 32" for k
    using that to_word_rate [of k] unfolding g by simp
  have z: "getUint32 bytes 24 = 48000"
    if "effective_rate env input opts = None \<or> effective_rate env input opts = Some (Num 0)
        \<or> effective_rate env input opts = Some NaN"
    using that to_word_rate [of 48000] unfolding g by auto
  show ?thesis using b g k z by blast
qed

theorem declared_rate_is_effective_rate_witness:
  "fst (denoise example_env denoise_init (Float32Array example_audio)
          (no_options\<lparr> returnType := Some blob, sampleRate := Some (Num (of_nat 48000)) \<rparr>))
     = Fulfilled (Blob example_wav ''audio/wav'')
   \<and> effective_rate example_env (Float32Array example_audio)
        (no_options\<lparr> returnType := Some blob, sampleRate := Some (Num (of_nat 48000)) \<rparr>)
       = Some (Num (of_nat 48000))
   \<and> (0 :: nat) < 48000 \<and> (48000 :: nat) < 2 ^ 32
   \<and> getUint32 example_wav 24 = 48000
   \<and> effective_rate example_env (Float32Array example_audio)
        (no_options\<lparr> returnType := Some blob, sampleRate := None \<rparr>) = None
   \<and> fst (denoise example_env denoise_init (Float32Array example_audio)
          (no_options\<lparr> returnType := Some blob, sampleRate := None \<rparr>))
     = Fulfilled (Blob example_wav ''audio/wav'')"
proof -
  have d1: "fst (denoise example_env denoise_init (Float32Array example_audio)
          (no_options\<lparr> returnType := Some blob, sampleRate := Some (Num (of_nat 48000)) \<rparr>))
     = Fulfilled (Blob example_wav ''audio/wav'')"
    using example_denoise_blob [of "Some (Num 48000)"] by (simp add: example_createWavFile)
  have d2: "fst (denoise example_env denoise_init (Float32Array example_audio)
          (no_options\<lparr> returnType := Some blob, sampleRate := None \<rparr>))
     = Fulfilled (Blob example_wav ''audio/wav'')"
    using example_denoise_blob [of None] by (simp add: example_createWavFile)
  have e1: "effective_rate example_env (Float32Array example_audio)
        (no_options\<lparr> returnType := Some blob, sampleRate := Some (Num (of_nat 48000)) \<rparr>)
       = Some (Num (of_nat 48000))"
    by (simp add: effective_rate_def)
  have e2: "effective_rate example_env (Float32Array example_audio)
        (no_options\<lparr> returnType := Some blob, sampleRate := None \<rparr>) = None"
    by (simp add: effective_rate_def)
  show ?thesis
    using d1 d2 e1 e2 declared_rate_is_effective_rate [OF d1] declared_rate_is_effective_rate [OF d2]
    by simp
qed

section \<open>Properties of the capture\<close>

lemma typed_set_at:
  "array_length chunk \<le> length rest \<Longrightarrow>
     typed_set (View b (pre @ rest) a) chunk (length pre)
       = Inr (View b (pre @ elems chunk @ drop (array_length chunk) rest) a)"
  by (simp add: typed_set_def array_length_def)

lemma combine_closed:
  "length rest = length (samples_of chunks) \<Longrightarrow>
     combine (View b (pre @ rest) a) (length pre) chunks
       = Inr (View b (pre @ samples_of chunks) a)"
proof (induction chunks arbitrary: pre rest)
  case Nil
  then show ?case by (simp add: samples_of_def)
next
  case (Cons chunk chunks)
  have fits: "array_length chunk \<le> length rest"
    using Cons.prems by (simp add: samples_of_def array_length_def)
  have ih: "combine (View b ((pre @ elems chunk) @ drop (array_length chunk) rest) a)
        (length (pre @ elems chunk)) chunks
      = Inr (View b ((pre @ elems chunk) @ samples_of chunks) a)"
    using Cons.prems by (intro Cons.IH) (simp add: samples_of_def array_length_def)
  show ?case
    using ih by (simp add: typed_set_at [OF fits] array_length_def samples_of_def)
qed

lemma combine_zeros:
  "n = length (samples_of chunks) \<Longrightarrow>
     combine (View [] (replicate n 0) []) 0 chunks = Inr (View [] (samples_of chunks) [])"
  using combine_closed [of "replicate n 0" chunks "[]" "[]" "[]"] by simp

lemma samples_of_snoc:
  "samples_of (chunks @ [Float32Array_copy f]) = samples_of chunks @ elems f"
  by (simp add: samples_of_def Float32Array_copy_def)

lemma slice0_prefix:
  "0 \<le> t \<Longrightarrow> t \<le> int (length xs) \<Longrightarrow>
     slice0 (View [] xs []) (Num (of_int t)) = View [] (take (nat t) xs) []"
  by (simp add: slice0_def array_length_def trunc_def Let_def min_def)

lemma count_geq_int: "count_geq n (Num (of_int t)) \<longleftrightarrow> t \<le> int n"
proof -
  have "(of_nat n :: rat) = of_int (int n)" by simp
  then show ?thesis by (simp only: count_geq.simps of_int_le_iff)
qed

lemma onaudioprocess_reached:
  assumes "count_geq (totalSamples + array_length f) target"
    and "combine (View [] (replicate (totalSamples + array_length f) 0) []) 0
           (chunks @ [Float32Array_copy f]) = Inr result"
  shows "onaudioprocess target chunks totalSamples (f # frames) = Fulfilled (slice0 result target)"
  using assms by (simp only: onaudioprocess.simps Let_def if_True sum.case)

lemma onaudioprocess_not_reached:
  assumes "\<not> count_geq (totalSamples + array_length f) target"
  shows "onaudioprocess target chunks totalSamples (f # frames)
     = onaudioprocess target (chunks @ [Float32Array_copy f]) (totalSamples + array_length f) frames"
  using assms by (simp only: onaudioprocess.simps Let_def if_False)

lemma onaudioprocess_closed:
  assumes "0 \<le> t"
  shows "totalSamples = length (samples_of chunks) \<Longrightarrow> frames \<noteq> [] \<or> int totalSamples < t \<Longrightarrow>
     onaudioprocess (Num (of_int t)) chunks totalSamples frames
       = (if t \<le> int (totalSamples + length (samples_of frames))
          then Fulfilled (View [] (take (nat t) (samples_of chunks @ samples_of frames)) [])
          else Pending)"
proof (induction frames arbitrary: chunks totalSamples)
  case Nil
  then show ?case by (simp add: samples_of_def)
next
  case (Cons f frames)
  let ?chunks = "chunks @ [Float32Array_copy f]"
  let ?total = "totalSamples + array_length f"
  have tot: "?total = length (samples_of ?chunks)"
    using Cons.prems(1) by (simp add: samples_of_snoc array_length_def)
  have sf: "samples_of (f # frames) = elems f @ samples_of frames"
    by (simp add: samples_of_def)
  show ?case
  proof (cases "t \<le> int ?total")
    case True
    have reached: "count_geq ?total (Num (of_int t))"
      using True by (simp add: count_geq_int del: count_geq.simps)
    have "onaudioprocess (Num (of_int t)) chunks totalSamples (f # frames)
        = Fulfilled (slice0 (View [] (samples_of ?chunks) []) (Num (of_int t)))"
      by (rule onaudioprocess_reached [OF reached combine_zeros [OF tot]])
    also have "\<dots> = Fulfilled (View [] (take (nat t) (samples_of ?chunks)) [])"
      using True tot assms by (simp add: slice0_prefix)
    also have "take (nat t) (samples_of ?chunks)
        = take (nat t) (samples_of chunks @ samples_of (f # frames))"
      using True tot by (simp add: samples_of_snoc sf)
    finally show ?thesis
      using True by (simp add: sf array_length_def)
  next
    case False
    have notyet: "\<not> count_geq ?total (Num (of_int t))"
      using False by (simp add: count_geq_int del: count_geq.simps)
    have "onaudioprocess (Num (of_int t)) chunks totalSamples (f # frames)
        = onaudioprocess (Num (of_int t)) ?chunks ?total frames"
      by (rule onaudioprocess_not_reached [OF notyet])
    also have "\<dots> = (if t \<le> int (?total + length (samples_of frames))
          then Fulfilled (View [] (take (nat t) (samples_of ?chunks @ samples_of frames)) [])
          else Pending)"
      using False by (intro Cons.IH [OF tot]) simp
    finally show ?thesis
      by (simp add: samples_of_snoc sf array_length_def add.assoc)
  qed
qed

lemma captureStreamAudio_closed:
  assumes "targetSamples rnd d rate = Num (of_int t)" and "0 \<le> t"
  shows "captureStreamAudio rnd rate frames d
       = (if frames \<noteq> [] \<and> t \<le> int (length (samples_of frames))
          then Fulfilled (View [] (take (nat t) (samples_of frames)) [])
          else Pending)"
proof (cases "frames = []")
  case True
  then show ?thesis by (simp add: captureStreamAudio_def)
next
  case False
  then show ?thesis
    using onaudioprocess_closed [OF assms(2), of 0 "[]" frames]
    by (simp add: captureStreamAudio_def assms(1) samples_of_def)
qed

lemma normalize_MediaStream:
  "normalize_input env (MediaStream tracks) opts
     = (case captureStreamAudio (round_double env) (context_sampleRate env) (audio_frames env)
              (capture_duration opts) of
          Pending \<Rightarrow> Pending
        | Rejected e \<Rightarrow> Rejected e
        | Fulfilled audioData \<Rightarrow> Fulfilled (audioData, sampleRate opts))"
  by (simp add: capture_duration_def)

lemma target_exact:
  "targetSamples (\<lambda>x. x) (Num d) (Num r) = Num (of_int \<lfloor>d / 1000 * r\<rfloor>)"
  by (simp add: targetSamples_def)

lemma length_silent: "length (samples_of (replicate n silent_frame)) = n * 4096"
  by (simp add: samples_of_def silent_frame_def length_concat sum_list_replicate)

text \<open>
  Claim C5, as stated, fails. With the duration \<open>-62.5\<close> ms at 48000 Hz the target is
  \<open>-3000\<close>; the first frame reaches it and the capture resolves with 1096 samples, not
  with an array of the length of the target. With the duration 0 the target of the claim
  is 0, which the first frame reaches, but the capture uses 5000 ms and is still pending
  after that frame.
\<close>

theorem capture_target_counterexample:
  "targetSamples (\<lambda>x. x) (Num (- 125 / 2)) (Num 48000) = Num (- 3000)
   \<and> normalize_input (example_env\<lparr> audio_frames := [silent_frame] \<rparr>) (MediaStream [7])
        (no_options\<lparr> duration := Some (Num (- 125 / 2)) \<rparr>)
       = Fulfilled (View [] (replicate 1096 0) [], None)
   \<and> targetSamples (\<lambda>x. x) (Num 0) (Num 48000) = Num 0
   \<and> normalize_input (example_env\<lparr> audio_frames := [silent_frame] \<rparr>) (MediaStream [7])
        (no_options\<lparr> duration := Some (Num 0) \<rparr>)
       = Pending"
proof -
  have t1: "targetSamples (\<lambda>x. x) (Num (- 125 / 2)) (Num 48000) = Num (- 3000)"
    by (simp add: targetSamples_def)
  have t2: "targetSamples (\<lambda>x. x) (Num 0) (Num 48000) = Num 0"
    by (simp add: targetSamples_def)
  have c: "combine (View [] (replicate (0 + array_length silent_frame) 0) []) 0
        ([] @ [Float32Array_copy silent_frame])
      = Inr (View [] (replicate 4096 0) [])"
    using combine_zeros [of "0 + array_length silent_frame" "[Float32Array_copy silent_frame]"]
    by (simp add: samples_of_def silent_frame_def array_length_def Float32Array_copy_def)
  have g: "count_geq (0 + array_length silent_frame) (Num (- 3000))"
    by simp
  have s: "slice0 (View [] (replicate 4096 0) []) (Num (- 3000)) = View [] (replicate 1096 0) []"
    by (simp add: slice0_def array_length_def trunc_def)
  have n1: "normalize_input (example_env\<lparr> audio_frames := [silent_frame] \<rparr>) (MediaStream [7])
        (no_options\<lparr> duration := Some (Num (- 125 / 2)) \<rparr>)
       = Fulfilled (View [] (replicate 1096 0) [], None)"
    using onaudioprocess_reached [OF g c, of "[]"] s t1
    by (simp add: normalize_MediaStream capture_duration_def captureStreamAudio_def
          example_env_def no_options_def del: onaudioprocess.simps)
  have t3: "targetSamples (\<lambda>x. x) (Num 5000) (Num 48000) = Num (of_int 240000)"
    by (simp add: targetSamples_def)
  have n2: "normalize_input (example_env\<lparr> audio_frames := [silent_frame] \<rparr>) (MediaStream [7])
        (no_options\<lparr> duration := Some (Num 0) \<rparr>)
       = Pending"
    using captureStreamAudio_closed [OF t3, of "[silent_frame]"] length_silent [of 1]
    by (simp add: normalize_MediaStream capture_duration_def example_env_def no_options_def)
  show ?thesis using t1 t2 n1 n2 by simp
qed

text \<open>
  Claim C5, amended. The capture uses the duration of the options, or 5000 ms when none
  is given (or the one given is 0 or NaN). When its target
  \<open>floor(duration / 1000 * sampleRate)\<close> is a number that is not negative, the capture
  resolves exactly when the frames delivered hold at least that many samples (and at
  least one frame was delivered), and the array it resolves to is the prefix of the
  concatenated frames of exactly the length of the target; until then it stays pending.
\<close>

theorem capture_trims_to_target:
  assumes "targetSamples (round_double env) (capture_duration opts) (context_sampleRate env)
             = Num (of_int t)"
    and "0 \<le> t"
  shows "normalize_input env (MediaStream tracks) opts
       = (if audio_frames env \<noteq> [] \<and> t \<le> int (length (samples_of (audio_frames env)))
          then Fulfilled (View [] (take (nat t) (samples_of (audio_frames env))) [], sampleRate opts)
          else Pending)
    \<and> (audio_frames env \<noteq> [] \<and> t \<le> int (length (samples_of (audio_frames env))) \<longrightarrow>
         array_length (View [] (take (nat t) (samples_of (audio_frames env))) []) = nat t)
    \<and> (duration opts = None \<or> duration opts = Some (Num 0) \<or> duration opts = Some NaN \<longrightarrow>
         capture_duration opts = Num 5000)
    \<and> (\<forall>d. duration opts = Some d \<and> num_truthy d \<longrightarrow> capture_duration opts = d)"
proof -
  have "normalize_input env (MediaStream tracks) opts
       = (if audio_frames env \<noteq> [] \<and> t \<le> int (length (samples_of (audio_frames env)))
          then Fulfilled (View [] (take (nat t) (samples_of (audio_frames env))) [], sampleRate opts)
          else Pending)"
    unfolding normalize_MediaStream captureStreamAudio_closed [OF assms] by simp
  moreover have "array_length (View [] (take (nat t) (samples_of (audio_frames env))) []) = nat t"
    if "t \<le> int (length (samples_of (audio_frames env)))"
    using that assms(2) by (simp add: array_length_def)
  moreover have "capture_duration opts = Num 5000"
    if "duration opts = None \<or> duration opts = Some (Num 0) \<or> duration opts = Some NaN"
    using that by (auto simp: capture_duration_def)
  moreover have "capture_duration opts = d" if "duration opts = Some d \<and> num_truthy d" for d
    using that by (simp add: capture_duration_def)
  ultimately show ?thesis by blast
qed

theorem capture_trims_to_target_witness:
  "targetSamples (round_double (example_env\<lparr> audio_frames := replicate 59 silent_frame \<rparr>))
       (capture_duration no_options)
       (context_sampleRate (example_env\<lparr> audio_frames := replicate 59 silent_frame \<rparr>))
     = Num (of_int 240000)
   \<and> (0 :: int) \<le> 240000
   \<and> duration no_options = None
   \<and> capture_duration no_options = Num 5000
   \<and> audio_frames (example_env\<lparr> audio_frames := replicate 59 silent_frame \<rparr>) \<noteq> []
   \<and> (240000 :: int) \<le> int (length (samples_of
         (audio_frames (example_env\<lparr> audio_frames := replicate 59 silent_frame \<rparr>))))
   \<and> normalize_input (example_env\<lparr> audio_frames := replicate 59 silent_frame \<rparr>)
        (MediaStream [7]) no_options
       = Fulfilled (View [] (take 240000 (samples_of (replicate 59 silent_frame))) [], None)
   \<and> array_length (View [] (take 240000 (samples_of (replicate 59 silent_frame))) []) = 240000"
proof -
  let ?env = "example_env\<lparr> audio_frames := replicate 59 silent_frame \<rparr>"
  have d: "duration no_options = None" by (simp add: no_options_def)
  have cd: "capture_duration no_options = Num 5000"
    by (simp add: capture_duration_def no_options_def)
  have h1: "targetSamples (round_double ?env) (capture_duration no_options) (context_sampleRate ?env)
     = Num (of_int 240000)"
    by (simp add: cd example_env_def targetSamples_def)
  have h2: "(0 :: int) \<le> 240000" by simp
  have fr: "audio_frames ?env \<noteq> []" by simp
  have ln: "(240000 :: int) \<le> int (length (samples_of (audio_frames ?env)))"
    using length_silent [of 59] by simp
  have sr: "sampleRate no_options = None" by (simp add: no_options_def)
  show ?thesis
    using d cd h1 fr ln sr capture_trims_to_target [OF h1 h2, of "[7]"]
    by simp
qed

end
